theory Spec2Isabelle
  imports Complex_Main "HOL-Library.Word" "HOL-Library.AList" "HOL-Library.Multiset"
begin

section \<open>Data model of the gateway (package gateway)\<close>

text \<open>
  Instants of \<^verbatim>\<open>time.Time\<close> are integers counting nanoseconds, so that
  \<^verbatim>\<open>t.After(u)\<close> is \<open>u < t\<close>, \<^verbatim>\<open>t.Before(u)\<close> is \<open>t < u\<close> and
  \<^verbatim>\<open>t.Add(d)\<close> is \<open>t + d\<close>.  Go strings are byte strings.
\<close>

type_synonym time = int

definition Minute :: int where
  "Minute = 60 * 1000000000"

text \<open>
  JSON values.  As the syntax stage of \<^verbatim>\<open>encoding/json\<close> hands a value on, a number is
  the exact value of its literal.  As an \<^verbatim>\<open>interface{}\<close> holds a value, a number is a
  \<^verbatim>\<open>float64\<close>, given by the real it represents, and \<open>JNull\<close> is also the nil interface of
  an absent field.
\<close>

datatype json =
    JNull
  | JBool bool
  | JNumber real
  | JString string
  | JArray "json list"
  | JObject "(string \<times> json) list"

record ConnectionConfig =
  ID :: string
  Slug :: string
  Domain :: string
  Profile :: string
  APIKeyHash :: string
  PrevKeyHash :: string
  PrevKeyExpiry :: string
  Enabled :: bool
  EnvVars :: "(string \<times> string) list"
  RateLimit :: int
  MaxConcurrency :: int
  CreatedAt :: string

record GatewayConfig =
  ServerID :: string
  GatewayID :: string
  Pepper :: string
  Connections :: "ConnectionConfig list"
  Version :: "64 word"

text \<open>\<^verbatim>\<open>mcp.Handler\<close>: the bound profile (by its identifier) and the snapshot of the
  tenant's environment.\<close>

record Handler =
  profile :: string
  envVars :: "(string \<times> string) list"

text \<open>\<^verbatim>\<open>Connection\<close>: \<open>requests\<close> is the sliding window of admitted instants and
  \<open>sessions\<close> the \<^verbatim>\<open>int32\<close> counter of attached sessions, read with \<open>sint\<close>.\<close>

record Connection =
  Config :: ConnectionConfig
  Handler :: Handler
  requests :: "time list"
  sessions :: "32 word"

record Metrics =
  RequestCount :: "64 word"
  ErrorCount :: "64 word"
  AuthFailures :: "64 word"
  Latencies :: "real list"
  ActiveSessions :: int
  LastRequestAt :: "time option"

text \<open>
  \<^verbatim>\<open>Gateway\<close>.  The Go maps are association lists read with \<open>map_of\<close>.  The registry
  maps a domain to a \<^verbatim>\<open>*Connection\<close>; the pointer is an index into \<open>heap\<close>, the list
  of all Connection objects allocated so far, so that an object dropped from the registry
  lives on for the sessions that still hold it.
\<close>

record Gateway =
  connections :: "(string \<times> nat) list"
  pepper :: string
  version :: "64 word"
  gatewayID :: string
  serverID :: string
  metrics :: "(string \<times> Metrics) list"
  heap :: "Connection list"

text \<open>
  What the code takes from outside the repository: the standard library's SHA-256 with
  hex encoding, its RFC 3339 parser and formatter, the syntax stage of \<^verbatim>\<open>encoding/json\<close> (bytes to
  a JSON value, \<open>None\<close> on a syntax error), the conversion \<^verbatim>\<open>strconv.ParseFloat\<close> of a number
  to the nearest \<^verbatim>\<open>float64\<close> (\<open>None\<close> when it is out of range), the decoder of the control plane's sync
  answer, and the profile collaborator (tool descriptors and tool calls by profile
  identifier).  Every function below takes them as the parameter \<open>L\<close>.
\<close>

record Tool =
  ToolName :: string
  ToolDescription :: string
  InputSchema :: json

record lib =
  sha256_hex :: "string \<Rightarrow> string"
  parse_RFC3339 :: "string \<Rightarrow> time option"
  format_RFC3339 :: "time \<Rightarrow> string"
  json_syntax :: "string \<Rightarrow> json option"
  float64 :: "real \<Rightarrow> real option"
  decode_sync :: "string \<Rightarrow> (bool \<times> GatewayConfig) option"
  profile_Tools :: "string \<Rightarrow> Tool list"
  profile_CallTool :: "string \<Rightarrow> string \<Rightarrow> json \<Rightarrow> (string \<times> string) list \<Rightarrow> string + string"

section \<open>Credential verifier\<close>

text \<open>\<^verbatim>\<open>VerifyAPIKey\<close>.  \<^verbatim>\<open>subtle.ConstantTimeCompare\<close> returns 1 exactly when the
  two byte strings are equal.\<close>

definition ConstantTimeCompare :: "string \<Rightarrow> string \<Rightarrow> int" where
  "ConstantTimeCompare x y = (if x = y then 1 else 0)"

definition VerifyAPIKey :: "('z lib_scheme) \<Rightarrow> time \<Rightarrow> Gateway \<Rightarrow> Connection \<Rightarrow> string \<Rightarrow> bool" where
  "VerifyAPIKey L now g conn apiKey =
    (let computed = sha256_hex L (pepper g @ apiKey) in
     if ConstantTimeCompare computed (APIKeyHash (Config conn)) = 1 then True
     else if PrevKeyHash (Config conn) \<noteq> [] \<and> PrevKeyExpiry (Config conn) \<noteq> [] then
       (case parse_RFC3339 L (PrevKeyExpiry (Config conn)) of
          None \<Rightarrow> False
        | Some expiry \<Rightarrow>
            if now < expiry then
              (if ConstantTimeCompare computed (PrevKeyHash (Config conn)) = 1 then True
               else False)
            else False)
     else False)"

section \<open>Rate and concurrency limiter\<close>

text \<open>The loop of \<^verbatim>\<open>CheckRateLimit\<close> that copies the entries after \<open>windowStart\<close>
  into \<open>valid\<close>.\<close>

fun keepValid :: "time \<Rightarrow> time list \<Rightarrow> time list \<Rightarrow> time list" where
  "keepValid windowStart valid [] = valid"
| "keepValid windowStart valid (t # ts) =
     (if windowStart < t then keepValid windowStart (valid @ [t]) ts
      else keepValid windowStart valid ts)"

definition CheckRateLimit :: "time \<Rightarrow> Connection \<Rightarrow> bool \<times> Connection" where
  "CheckRateLimit now conn =
    (let limit = RateLimit (Config conn);
         limit = (if limit \<le> 0 then 60 else limit);
         windowStart = now + (- Minute);
         conn = conn\<lparr>requests := keepValid windowStart [] (requests conn)\<rparr>
     in if int (length (requests conn)) \<ge> limit then (False, conn)
        else (True, conn\<lparr>requests := requests conn @ [now]\<rparr>))"

definition CheckConcurrency :: "Connection \<Rightarrow> bool" where
  "CheckConcurrency conn =
    (let limit = MaxConcurrency (Config conn);
         limit = (if limit \<le> 0 then 10 else limit)
     in sint (sessions conn) < limit)"

definition IncrementSessions :: "Connection \<Rightarrow> Connection" where
  "IncrementSessions conn = conn\<lparr>sessions := sessions conn + 1\<rparr>"

definition DecrementSessions :: "Connection \<Rightarrow> Connection" where
  "DecrementSessions conn =
    (if 0 < sint (sessions conn) then conn\<lparr>sessions := sessions conn - 1\<rparr> else conn)"

section \<open>JSON-RPC and MCP protocol types (package mcp)\<close>

record JSONRPCRequest =
  rqJSONRPC :: string
  rqID :: json
  rqMethod :: string
  rqParams :: json

record JSONRPCError =
  Code :: int
  Message :: string
  Data :: json

record ClientInfo =
  ciName :: string
  ciVersion :: string

record InitializeParams =
  ipProtocolVersion :: string
  ipCapabilities :: "(string \<times> json) list option"
  ipClientInfo :: "ClientInfo option"

record ToolsCapability =
  ListChanged :: bool

record Capabilities =
  Tools :: "ToolsCapability option"

record ServerInfo =
  Name :: string
  Version' :: string

record InitializeResult =
  ProtocolVersion' :: string
  Capabilities' :: Capabilities
  ServerInfo' :: ServerInfo

record ToolCallParams =
  tcName :: string
  tcArguments :: json

record ContentBlock =
  Type :: string
  Text :: string

text \<open>What a response's \<^verbatim>\<open>Result interface{}\<close> can hold: nil, the empty map of
  \<^verbatim>\<open>ping\<close>, or one of the three result structs.\<close>

datatype result =
    NoResult
  | EmptyObject
  | InitializeResult InitializeResult
  | ToolsListResult "Tool list"
  | ToolCallResult "ContentBlock list" bool

text \<open>A response as the handler builds it.  Its id is the value the request holds;
  \<^verbatim>\<open>json.Marshal\<close> leaves out an id that is nil, a result that is nil and an error that
  is nil (\<^verbatim>\<open>omitempty\<close>).\<close>

record JSONRPCResponse =
  rsJSONRPC :: string
  rsID :: json
  rsResult :: result
  rsError :: "JSONRPCError option"

definition ParseError :: int where "ParseError = - 32700"
definition InvalidRequest :: int where "InvalidRequest = - 32600"
definition MethodNotFound :: int where "MethodNotFound = - 32601"
definition InvalidParams :: int where "InvalidParams = - 32602"
definition InternalError :: int where "InternalError = - 32603"

definition ProtocolVersion :: string where
  "ProtocolVersion = ''2024-11-05''"

subsection \<open>Decoding with \<^verbatim>\<open>encoding/json\<close>\<close>

text \<open>
  \<^verbatim>\<open>json.Unmarshal\<close> is the syntax stage \<open>json_syntax L\<close> followed by the storing of the
  value, written out here as the library does it.

  Into an \<^verbatim>\<open>interface{}\<close> (\<open>valueInterface\<close>): every number of the value, at any depth, is
  converted to a \<^verbatim>\<open>float64\<close>; a number out of range is an error.

  Into a struct: the top-level value must be an object or \<^verbatim>\<open>null\<close> (which leaves the
  struct as it is).  A key selects the field whose tag it equals, else the first field
  whose tag has the same folded name; a member whose key selects no field is skipped
  without being converted.  A string field takes a string, ignores \<^verbatim>\<open>null\<close> and rejects
  anything else; an \<^verbatim>\<open>interface{}\<close> field takes the converted value.  After a rejected
  member the library goes on and returns the error at the end; its callers here look
  only at whether there was an error, which is the result \<open>None\<close>.

  Into a \<^verbatim>\<open>map[string]interface{}\<close>: the top-level value must be an object, all of whose
  members are converted, or \<^verbatim>\<open>null\<close>, which leaves the nil map.
\<close>

definition toUpperASCII :: "char \<Rightarrow> char" where
  "toUpperASCII c =
    (case map_of (zip ''abcdefghijklmnopqrstuvwxyz'' ''ABCDEFGHIJKLMNOPQRSTUVWXYZ'') c of
       Some u \<Rightarrow> u
     | None \<Rightarrow> c)"

definition isASCII :: "char \<Rightarrow> bool" where
  "isASCII c = ((of_char c :: nat) < 128)"

text \<open>
  \<^verbatim>\<open>foldName\<close> of a key (valid UTF-8, as the decoder's unquoting leaves it): an ASCII
  letter goes to its upper case, every other rune to the least rune of its orbit under
  \<^verbatim>\<open>unicode.SimpleFold\<close>.  Two runes outside ASCII share an orbit with an ASCII letter:
  U+017F (bytes C5 BF) folds to S and U+212A (bytes E2 84 AA) to K.  Every other
  multi-byte rune folds to a multi-byte rune; the result is then \<open>None\<close>, a folded name
  that is not ASCII, which is the folded name of none of the field tags below.
\<close>

fun foldName :: "string \<Rightarrow> string option" where
  "foldName [] = Some []"
| "foldName [c1] = (if isASCII c1 then Some [toUpperASCII c1] else None)"
| "foldName [c1, c2] =
    (if isASCII c1 then map_option (Cons (toUpperASCII c1)) (foldName [c2])
     else if c1 = CHR 0xC5 \<and> c2 = CHR 0xBF then Some ''S''
     else None)"
| "foldName (c1 # c2 # c3 # cs) =
    (if isASCII c1 then map_option (Cons (toUpperASCII c1)) (foldName (c2 # c3 # cs))
     else if c1 = CHR 0xC5 \<and> c2 = CHR 0xBF then map_option (Cons (CHR ''S'')) (foldName (c3 # cs))
     else if c1 = CHR 0xE2 \<and> c2 = CHR 0x84 \<and> c3 = CHR 0xAA
       then map_option (Cons (CHR ''K'')) (foldName cs)
     else None)"

definition fieldFor :: "string list \<Rightarrow> string \<Rightarrow> string option" where
  "fieldFor names key =
    (if key \<in> set names then Some key
     else find (\<lambda>n. foldName key \<noteq> None \<and> foldName n = foldName key) names)"

fun allSome :: "(string \<times> json option) list \<Rightarrow> (string \<times> json) list option" where
  "allSome [] = Some []"
| "allSome ((k, None) # kvs) = None"
| "allSome ((k, Some v) # kvs) = map_option (Cons (k, v)) (allSome kvs)"

primrec valueInterface :: "('z lib_scheme) \<Rightarrow> json \<Rightarrow> json option" where
  "valueInterface L JNull = Some JNull"
| "valueInterface L (JBool b) = Some (JBool b)"
| "valueInterface L (JNumber r) = map_option JNumber (float64 L r)"
| "valueInterface L (JString s) = Some (JString s)"
| "valueInterface L (JArray vs) = map_option JArray (those (map (valueInterface L) vs))"
| "valueInterface L (JObject kvs) =
     map_option JObject (allSome (map (map_prod id (valueInterface L)) kvs))"

definition zeroRequest :: JSONRPCRequest where
  "zeroRequest = \<lparr>rqJSONRPC = [], rqID = JNull, rqMethod = [], rqParams = JNull\<rparr>"

fun bindRequest ::
  "('z lib_scheme) \<Rightarrow> (string \<times> json) list \<Rightarrow> JSONRPCRequest \<Rightarrow> JSONRPCRequest option" where
  "bindRequest L [] r = Some r"
| "bindRequest L ((k, v) # kvs) r =
    (case fieldFor [''jsonrpc'', ''id'', ''method'', ''params''] k of
       None \<Rightarrow> bindRequest L kvs r
     | Some f \<Rightarrow>
        if f = ''jsonrpc'' then
          (case v of JString s \<Rightarrow> bindRequest L kvs (r\<lparr>rqJSONRPC := s\<rparr>)
                   | JNull \<Rightarrow> bindRequest L kvs r
                   | _ \<Rightarrow> None)
        else if f = ''method'' then
          (case v of JString s \<Rightarrow> bindRequest L kvs (r\<lparr>rqMethod := s\<rparr>)
                   | JNull \<Rightarrow> bindRequest L kvs r
                   | _ \<Rightarrow> None)
        else if f = ''id'' then
          (case valueInterface L v of
             None \<Rightarrow> None
           | Some i \<Rightarrow> bindRequest L kvs (r\<lparr>rqID := i\<rparr>))
        else
          (case valueInterface L v of
             None \<Rightarrow> None
           | Some p \<Rightarrow> bindRequest L kvs (r\<lparr>rqParams := p\<rparr>)))"

definition unmarshalRequest :: "('z lib_scheme) \<Rightarrow> string \<Rightarrow> JSONRPCRequest option" where
  "unmarshalRequest L raw =
    (case json_syntax L raw of
       None \<Rightarrow> None
     | Some JNull \<Rightarrow> Some zeroRequest
     | Some (JObject kvs) \<Rightarrow> bindRequest L kvs zeroRequest
     | Some _ \<Rightarrow> None)"

text \<open>\<^verbatim>\<open>json.Unmarshal(body, &rawMsg)\<close> with \<^verbatim>\<open>rawMsg map[string]interface{}\<close>.  In the nil
  map that \<^verbatim>\<open>null\<close> leaves no key is found.\<close>

definition unmarshalMap :: "('z lib_scheme) \<Rightarrow> string \<Rightarrow> (string \<times> json) list option" where
  "unmarshalMap L raw =
    (case json_syntax L raw of
       None \<Rightarrow> None
     | Some JNull \<Rightarrow> Some []
     | Some (JObject kvs) \<Rightarrow> allSome (map (map_prod id (valueInterface L)) kvs)
     | Some _ \<Rightarrow> None)"

text \<open>
  A decoded object is a Go map: \<^verbatim>\<open>json.Marshal\<close> writes each key once, with the value
  of its last occurrence, the keys sorted as byte strings.  Its numbers are \<^verbatim>\<open>float64\<close>
  already, and decoding what \<^verbatim>\<open>json.Marshal\<close> wrote gives them back.
\<close>

fun lastOfEachKey :: "(string \<times> json) list \<Rightarrow> (string \<times> json) list" where
  "lastOfEachKey [] = []"
| "lastOfEachKey ((k, v) # kvs) =
    (if k \<in> fst ` set kvs then lastOfEachKey kvs else (k, v) # lastOfEachKey kvs)"

fun bytesLess :: "string \<Rightarrow> string \<Rightarrow> bool" where
  "bytesLess [] [] = False"
| "bytesLess [] (y # ys) = True"
| "bytesLess (x # xs) [] = False"
| "bytesLess (x # xs) (y # ys) =
    ((of_char x :: nat) < of_char y \<or> (x = y \<and> bytesLess xs ys))"

fun insertMember :: "string \<times> json \<Rightarrow> (string \<times> json) list \<Rightarrow> (string \<times> json) list" where
  "insertMember kv [] = [kv]"
| "insertMember kv (m # ms) =
    (if bytesLess (fst kv) (fst m) then kv # m # ms else m # insertMember kv ms)"

definition marshalledMembers :: "(string \<times> json) list \<Rightarrow> (string \<times> json) list" where
  "marshalledMembers kvs = foldr insertMember (lastOfEachKey kvs) []"

fun bindClientInfo :: "(string \<times> json) list \<Rightarrow> ClientInfo \<Rightarrow> ClientInfo option" where
  "bindClientInfo [] c = Some c"
| "bindClientInfo ((k, v) # kvs) c =
    (case fieldFor [''name'', ''version''] k of
       None \<Rightarrow> bindClientInfo kvs c
     | Some f \<Rightarrow>
        (case v of
           JString s \<Rightarrow>
             bindClientInfo kvs (if f = ''name'' then c\<lparr>ciName := s\<rparr> else c\<lparr>ciVersion := s\<rparr>)
         | JNull \<Rightarrow> bindClientInfo kvs c
         | _ \<Rightarrow> None))"

fun bindInitializeParams ::
  "(string \<times> json) list \<Rightarrow> InitializeParams \<Rightarrow> InitializeParams option" where
  "bindInitializeParams [] p = Some p"
| "bindInitializeParams ((k, v) # kvs) p =
    (case fieldFor [''protocolVersion'', ''capabilities'', ''clientInfo''] k of
       None \<Rightarrow> bindInitializeParams kvs p
     | Some f \<Rightarrow>
        if f = ''protocolVersion'' then
          (case v of JString s \<Rightarrow> bindInitializeParams kvs (p\<lparr>ipProtocolVersion := s\<rparr>)
                   | JNull \<Rightarrow> bindInitializeParams kvs p
                   | _ \<Rightarrow> None)
        else if f = ''capabilities'' then
          (case v of JObject m \<Rightarrow>
                       bindInitializeParams kvs
                         (p\<lparr>ipCapabilities :=
                              Some ((case ipCapabilities p of None \<Rightarrow> [] | Some old \<Rightarrow> old) @ m)\<rparr>)
                   | JNull \<Rightarrow> bindInitializeParams kvs (p\<lparr>ipCapabilities := None\<rparr>)
                   | _ \<Rightarrow> None)
        else
          (case v of
             JObject m \<Rightarrow>
               (case bindClientInfo (marshalledMembers m)
                       (case ipClientInfo p of None \<Rightarrow> \<lparr>ciName = [], ciVersion = []\<rparr>
                                             | Some c \<Rightarrow> c) of
                  None \<Rightarrow> None
                | Some c \<Rightarrow> bindInitializeParams kvs (p\<lparr>ipClientInfo := Some c\<rparr>))
           | JNull \<Rightarrow> bindInitializeParams kvs (p\<lparr>ipClientInfo := None\<rparr>)
           | _ \<Rightarrow> None))"

text \<open>\<^verbatim>\<open>json.Marshal(req.Params)\<close> followed by \<^verbatim>\<open>json.Unmarshal(paramsBytes, &params)\<close>.
  An object stored into a map or through a pointer that a member with another spelling
  of the key has set already adds to what is there.\<close>

definition decodeInitializeParams :: "json \<Rightarrow> InitializeParams option" where
  "decodeInitializeParams v =
    (let zero = \<lparr>ipProtocolVersion = [], ipCapabilities = None, ipClientInfo = None\<rparr> in
     case v of
       JNull \<Rightarrow> Some zero
     | JObject kvs \<Rightarrow> bindInitializeParams (marshalledMembers kvs) zero
     | _ \<Rightarrow> None)"

fun bindToolCallParams :: "(string \<times> json) list \<Rightarrow> ToolCallParams \<Rightarrow> ToolCallParams option" where
  "bindToolCallParams [] p = Some p"
| "bindToolCallParams ((k, v) # kvs) p =
    (case fieldFor [''name'', ''arguments''] k of
       None \<Rightarrow> bindToolCallParams kvs p
     | Some f \<Rightarrow>
        if f = ''name'' then
          (case v of JString s \<Rightarrow> bindToolCallParams kvs (p\<lparr>tcName := s\<rparr>)
                   | JNull \<Rightarrow> bindToolCallParams kvs p
                   | _ \<Rightarrow> None)
        else
          (case v of JObject m \<Rightarrow>
                       bindToolCallParams kvs
                         (p\<lparr>tcArguments :=
                              JObject ((case tcArguments p of JObject old \<Rightarrow> old | _ \<Rightarrow> []) @ m)\<rparr>)
                   | JNull \<Rightarrow> bindToolCallParams kvs (p\<lparr>tcArguments := JNull\<rparr>)
                   | _ \<Rightarrow> None))"

definition decodeToolCallParams :: "json \<Rightarrow> ToolCallParams option" where
  "decodeToolCallParams v =
    (let zero = \<lparr>tcName = [], tcArguments = JNull\<rparr> in
     case v of
       JNull \<Rightarrow> Some zero
     | JObject kvs \<Rightarrow> bindToolCallParams (marshalledMembers kvs) zero
     | _ \<Rightarrow> None)"

section \<open>Profiles and the protocol handler\<close>

text \<open>The identifiers under which \<^verbatim>\<open>init\<close> registers the 22 profiles; a profile is
  known to the model by its identifier.\<close>

definition Registry :: "string list" where
  "Registry = [''time'', ''fetch'', ''memory'', ''filesystem'', ''wordpress-knowledge'',
     ''files-knowledge'', ''thinking'', ''dns'', ''crypto'', ''healthcheck'', ''cron'',
     ''regex'', ''math'', ''ip'', ''webhook'', ''email'', ''transform'', ''database'',
     ''redis'', ''qrcode'', ''git'', ''docker'']"

definition profiles_Get :: "string \<Rightarrow> string option" where
  "profiles_Get pid = (if pid \<in> set Registry then Some pid else None)"

definition NewHandler :: "string \<Rightarrow> (string \<times> string) list \<Rightarrow> Handler" where
  "NewHandler p env = \<lparr>profile = p, envVars = env\<rparr>"

text \<open>Modelled from the spec: \<^verbatim>\<open>Handler.UpdateEnvVars\<close> is called by
  \<^verbatim>\<open>ApplyConfig\<close> and defined in no source file at hand.  The specification has the
  registry refresh the handler's snapshot of the environment on every apply, replacing
  the map by value.\<close>

definition UpdateEnvVars :: "Handler \<Rightarrow> (string \<times> string) list \<Rightarrow> Handler" where
  "UpdateEnvVars h env = h\<lparr>envVars := env\<rparr>"

definition errorResponse :: "json \<Rightarrow> int \<Rightarrow> string \<Rightarrow> JSONRPCResponse" where
  "errorResponse i c m =
    \<lparr>rsJSONRPC = ''2.0'', rsID = i, rsResult = NoResult,
     rsError = Some \<lparr>Code = c, Message = m, Data = JNull\<rparr>\<rparr>"

definition resultResponse :: "json \<Rightarrow> result \<Rightarrow> JSONRPCResponse" where
  "resultResponse i r = \<lparr>rsJSONRPC = ''2.0'', rsID = i, rsResult = r, rsError = None\<rparr>"

definition handleInitialize :: "JSONRPCRequest \<Rightarrow> JSONRPCResponse" where
  "handleInitialize req =
    (let mismatch =
       (if rqParams req \<noteq> JNull then
          (case decodeInitializeParams (rqParams req) of
             Some params \<Rightarrow>
               if ipProtocolVersion params \<noteq> [] \<and> ipProtocolVersion params \<noteq> ProtocolVersion
               then Some (ipProtocolVersion params) else None
           | None \<Rightarrow> None)
        else None)
     in case mismatch of
       Some v \<Rightarrow>
         errorResponse (rqID req) InvalidParams
           (''Unsupported protocol version: '' @ v @ ''. Supported: '' @ ProtocolVersion)
     | None \<Rightarrow>
         resultResponse (rqID req)
           (InitializeResult
              \<lparr>ProtocolVersion' = ProtocolVersion,
               Capabilities' = \<lparr>Tools = Some \<lparr>ListChanged = False\<rparr>\<rparr>,
               ServerInfo' = \<lparr>Name = ''dublyo-mcp-gateway'', Version' = ''1.0.0''\<rparr>\<rparr>))"

definition handleToolsList :: "('z lib_scheme) \<Rightarrow> Handler \<Rightarrow> JSONRPCRequest \<Rightarrow> JSONRPCResponse" where
  "handleToolsList L h req =
    resultResponse (rqID req) (ToolsListResult (profile_Tools L (profile h)))"

definition handleToolsCall :: "('z lib_scheme) \<Rightarrow> Handler \<Rightarrow> JSONRPCRequest \<Rightarrow> JSONRPCResponse" where
  "handleToolsCall L h req =
    (case decodeToolCallParams (rqParams req) of
       None \<Rightarrow> errorResponse (rqID req) InvalidParams ''Invalid tool call params''
     | Some params \<Rightarrow>
        (case profile_CallTool L (profile h) (tcName params) (tcArguments params) (envVars h) of
           Inl err \<Rightarrow>
             resultResponse (rqID req)
               (ToolCallResult [\<lparr>Type = ''text'', Text = ''Error: '' @ err\<rparr>] True)
         | Inr res \<Rightarrow>
             resultResponse (rqID req)
               (ToolCallResult [\<lparr>Type = ''text'', Text = res\<rparr>] False)))"

text \<open>\<^verbatim>\<open>HandleMessage\<close>: \<open>None\<close> is the nil response.\<close>

definition HandleMessage :: "('z lib_scheme) \<Rightarrow> Handler \<Rightarrow> string \<Rightarrow> JSONRPCResponse option" where
  "HandleMessage L h raw =
    (case unmarshalRequest L raw of
       None \<Rightarrow> Some (errorResponse JNull ParseError ''Parse error'')
     | Some req \<Rightarrow>
        if rqJSONRPC req \<noteq> ''2.0'' then
          Some (errorResponse (rqID req) InvalidRequest ''Invalid JSON-RPC version'')
        else if rqMethod req = ''initialize'' then Some (handleInitialize req)
        else if rqMethod req = ''initialized'' then None
        else if rqMethod req = ''ping'' then Some (resultResponse (rqID req) EmptyObject)
        else if rqMethod req = ''tools/list'' then Some (handleToolsList L h req)
        else if rqMethod req = ''tools/call'' then Some (handleToolsCall L h req)
        else if rqMethod req = ''notifications/cancelled'' then None
        else Some (errorResponse (rqID req) MethodNotFound
                     (''Method not found: '' @ rqMethod req)))"

section \<open>Metrics store\<close>

definition zeroMetrics :: Metrics where
  "zeroMetrics = \<lparr>RequestCount = 0, ErrorCount = 0, AuthFailures = 0, Latencies = [],
     ActiveSessions = 0, LastRequestAt = None\<rparr>"

definition metricsEntry :: "Gateway \<Rightarrow> string \<Rightarrow> Metrics" where
  "metricsEntry g connID =
    (case map_of (metrics g) connID of None \<Rightarrow> zeroMetrics | Some m \<Rightarrow> m)"

definition RecordRequest :: "time \<Rightarrow> string \<Rightarrow> real \<Rightarrow> bool \<Rightarrow> Gateway \<Rightarrow> Gateway" where
  "RecordRequest now connID latencyMs isError g =
    (let m = metricsEntry g connID;
         m = m\<lparr>RequestCount := RequestCount m + 1, LastRequestAt := Some now\<rparr>;
         m = (if isError then m\<lparr>ErrorCount := ErrorCount m + 1\<rparr> else m);
         m = m\<lparr>Latencies := Latencies m @ [latencyMs]\<rparr>;
         m = (if length (Latencies m) > 100
              then m\<lparr>Latencies := drop (length (Latencies m) - 100) (Latencies m)\<rparr> else m)
     in g\<lparr>metrics := AList.update connID m (metrics g)\<rparr>)"

definition RecordAuthFailure :: "string \<Rightarrow> Gateway \<Rightarrow> Gateway" where
  "RecordAuthFailure connID g =
    (let m = metricsEntry g connID;
         m = m\<lparr>AuthFailures := AuthFailures m + 1\<rparr>
     in g\<lparr>metrics := AList.update connID m (metrics g)\<rparr>)"

section \<open>HTTP transport (package server)\<close>

text \<open>
  What a handler reads of the request: the \<^verbatim>\<open>Authorization\<close> and \<^verbatim>\<open>mcp-session-id\<close>
  headers and the \<^verbatim>\<open>sessionId\<close> query parameter (empty when absent), and the body as
  the results of the successive \<^verbatim>\<open>r.Body.Read(buf)\<close> calls: the bytes read and
  whether \<open>err\<close> was non-nil.  After the last listed result, \<^verbatim>\<open>Read\<close> returns no byte
  and \<^verbatim>\<open>io.EOF\<close>.
\<close>

record Request =
  Authorization :: string
  querySessionId :: string
  headerMcpSessionId :: string
  Body :: "(string \<times> bool) list"

datatype body = NoBody | TextBody string | JSONBody JSONRPCResponse

record Response =
  status :: int
  headers :: "(string \<times> string) list"
  written :: body

text \<open>A session; \<open>Messages\<close> is the content of the channel of capacity 64, each payload
  the response that \<^verbatim>\<open>json.Marshal\<close> encoded.\<close>

record Session =
  sessionID :: string
  ConnID :: string
  Messages :: "JSONRPCResponse list"
  sessionDone :: bool

record Server =
  srvSessions :: "(string \<times> Session) list"

definition httpError :: "string \<Rightarrow> int \<Rightarrow> Response" where
  "httpError msg code =
    \<lparr>status = code,
     headers = [(''Content-Type'', ''text/plain; charset=utf-8''),
                (''X-Content-Type-Options'', ''nosniff'')],
     written = TextBody (msg @ [CHR 0x0A])\<rparr>"

definition writeHeaderOnly :: "int \<Rightarrow> Response" where
  "writeHeaderOnly code = \<lparr>status = code, headers = [], written = NoBody\<rparr>"

text \<open>\<^verbatim>\<open>authenticateRequest\<close> on the connection at address \<open>a\<close>: the response written on
  failure, or \<open>None\<close> when the request may proceed.  The clock readings of one handler
  call are taken to be the one instant \<open>now\<close>.\<close>

definition authenticateRequest ::
  "('z lib_scheme) \<Rightarrow> time \<Rightarrow> Request \<Rightarrow> nat \<Rightarrow> Gateway \<Rightarrow> Response option \<times> Gateway" where
  "authenticateRequest L now r a g =
    (let conn = heap g ! a; auth = Authorization r in
     if auth = [] \<or> \<not> (take 7 auth = ''Bearer '') then
       (Some (httpError ''Unauthorized'' 401), RecordAuthFailure (ID (Config conn)) g)
     else
       let apiKey = drop 7 auth in
       if \<not> VerifyAPIKey L now g conn apiKey then
         (Some (httpError ''Unauthorized'' 401), RecordAuthFailure (ID (Config conn)) g)
       else
         (case CheckRateLimit now conn of
            (False, conn') \<Rightarrow>
              (Some (httpError ''Rate limit exceeded'' 429), g\<lparr>heap := (heap g)[a := conn']\<rparr>)
          | (True, conn') \<Rightarrow> (None, g\<lparr>heap := (heap g)[a := conn']\<rparr>)))"

text \<open>The read loop of both JSON-RPC entry points; \<open>None\<close> is the 413 exit.\<close>

fun readBody :: "(string \<times> bool) list \<Rightarrow> string \<Rightarrow> string option" where
  "readBody [] body = Some body"
| "readBody ((chunk, err) # rest) body =
    (let body = (if length chunk > 0 then body @ chunk else body) in
     if err then Some body
     else if length body > 1024 * 1024 then None
     else readBody rest body)"

text \<open>\<^verbatim>\<open>generateSessionID\<close>: \<^verbatim>\<open>"s_%d_%d"\<close> of the nanoseconds and of the microseconds
  modulo 10000 (Go's \<^verbatim>\<open>/\<close> and \<^verbatim>\<open>%\<close> truncate towards zero).\<close>

fun digits :: "nat \<Rightarrow> nat \<Rightarrow> string" where
  "digits 0 n = []"
| "digits (Suc fuel) n =
    (if n < 10 then [''0123456789'' ! n]
     else digits fuel (n div 10) @ [''0123456789'' ! (n mod 10)])"

text \<open>\<^verbatim>\<open>%d\<close> of an \<^verbatim>\<open>int64\<close>, which has at most 19 digits.\<close>

definition formatInt :: "int \<Rightarrow> string" where
  "formatInt i = (if i < 0 then ''-'' @ digits 19 (nat (- i)) else digits 19 (nat i))"

definition truncRem :: "int \<Rightarrow> int \<Rightarrow> int" where
  "truncRem a b = sgn a * (\<bar>a\<bar> mod \<bar>b\<bar>)"

definition truncQuot :: "int \<Rightarrow> int \<Rightarrow> int" where
  "truncQuot a b = sgn a * sgn b * (\<bar>a\<bar> div \<bar>b\<bar>)"

definition generateSessionID :: "time \<Rightarrow> string" where
  "generateSessionID now =
    ''s_'' @ formatInt now @ ''_'' @ formatInt (truncRem (truncQuot now 1000) 10000)"

definition isNotification :: "('z lib_scheme) \<Rightarrow> string \<Rightarrow> bool" where
  "isNotification L body =
    (case unmarshalMap L body of
       None \<Rightarrow> False
     | Some rawMsg \<Rightarrow> map_of rawMsg ''id'' = None)"

definition isErrorResponse :: "JSONRPCResponse option \<Rightarrow> bool" where
  "isErrorResponse response = (case response of None \<Rightarrow> False | Some r \<Rightarrow> rsError r \<noteq> None)"

definition handleStreamableHTTP ::
  "('z lib_scheme) \<Rightarrow> time \<Rightarrow> real \<Rightarrow> Request \<Rightarrow> nat \<Rightarrow> Gateway \<Rightarrow> Response \<times> Gateway" where
  "handleStreamableHTTP L now latency r a g =
    (case authenticateRequest L now r a g of
       (Some refused, g) \<Rightarrow> (refused, g)
     | (None, g) \<Rightarrow>
        (case readBody (Body r) [] of
           None \<Rightarrow> (httpError ''Request too large'' 413, g)
         | Some body \<Rightarrow>
            let conn = heap g ! a in
            if isNotification L body then
              (let discarded = HandleMessage L (Handler conn) body in (writeHeaderOnly 202, g))
            else
              let response = HandleMessage L (Handler conn) body;
                  g = RecordRequest now (ID (Config conn)) latency (isErrorResponse response) g
              in case response of
                   None \<Rightarrow> (writeHeaderOnly 202, g)
                 | Some resp \<Rightarrow>
                     let sessionID = headerMcpSessionId r;
                         sessionID = (if sessionID = [] then generateSessionID now else sessionID)
                     in (\<lparr>status = 200,
                          headers = [(''Content-Type'', ''application/json''),
                                     (''mcp-session-id'', sessionID)],
                          written = JSONBody resp\<rparr>, g)))"

text \<open>The non-blocking send on the session's channel: a full buffer drops the payload.\<close>

definition enqueue :: "JSONRPCResponse \<Rightarrow> Session \<Rightarrow> Session" where
  "enqueue payload s =
    (if length (Messages s) < 64 then s\<lparr>Messages := Messages s @ [payload]\<rparr> else s)"

definition handleSSEMessage ::
  "('z lib_scheme) \<Rightarrow> time \<Rightarrow> real \<Rightarrow> Request \<Rightarrow> nat \<Rightarrow> Server \<times> Gateway
     \<Rightarrow> Response \<times> Server \<times> Gateway" where
  "handleSSEMessage L now latency r a sg =
    (case sg of (srv, g) \<Rightarrow>
     case authenticateRequest L now r a g of
       (Some refused, g) \<Rightarrow> (refused, srv, g)
     | (None, g) \<Rightarrow>
        let sessionID = querySessionId r in
        if sessionID = [] then (httpError ''Missing sessionId'' 400, srv, g)
        else
          (case map_of (srvSessions srv) sessionID of
             None \<Rightarrow> (httpError ''Session not found'' 404, srv, g)
           | Some session \<Rightarrow>
              (case readBody (Body r) [] of
                 None \<Rightarrow> (httpError ''Request too large'' 413, srv, g)
               | Some body \<Rightarrow>
                  let conn = heap g ! a;
                      response = HandleMessage L (Handler conn) body;
                      g = RecordRequest now (ID (Config conn)) latency (isErrorResponse response) g;
                      srv = (case response of
                               None \<Rightarrow> srv
                             | Some resp \<Rightarrow>
                                 srv\<lparr>srvSessions :=
                                   AList.update sessionID (enqueue resp session) (srvSessions srv)\<rparr>)
                  in (writeHeaderOnly 202, srv, g))))"

section \<open>Tenant registry: applying a configuration\<close>

definition ensureMetrics :: "string \<Rightarrow> Gateway \<Rightarrow> Gateway" where
  "ensureMetrics connID g =
    (if map_of (metrics g) connID = None
     then g\<lparr>metrics := AList.update connID zeroMetrics (metrics g)\<rparr> else g)"

text \<open>One iteration of the loop of \<^verbatim>\<open>ApplyConfig\<close> over \<^verbatim>\<open>cfg.Connections\<close>.  The
  state is the gateway, whose registry is still the old map, and \<open>newConns\<close>.\<close>

definition applyConnection ::
  "ConnectionConfig \<Rightarrow> Gateway \<times> (string \<times> nat) list \<Rightarrow> Gateway \<times> (string \<times> nat) list" where
  "applyConnection cc st =
    (case st of (g, newConns) \<Rightarrow>
     if \<not> Enabled cc then (g, newConns)
     else
       let existing = map_of (connections g) (Domain cc) in
       if existing \<noteq> None \<and> Profile (Config (heap g ! the existing)) = Profile cc then
         let a = the existing;
             conn = heap g ! a;
             conn = conn\<lparr>Config := cc\<rparr>;
             conn = conn\<lparr>Handler := UpdateEnvVars (Handler conn) (EnvVars cc)\<rparr>;
             g = g\<lparr>heap := (heap g)[a := conn]\<rparr>
         in (ensureMetrics (ID cc) g, AList.update (Domain cc) a newConns)
       else
         (case profiles_Get (Profile cc) of
            None \<Rightarrow> (g, newConns)
          | Some p \<Rightarrow>
             let handler = NewHandler p (EnvVars cc);
                 a = length (heap g);
                 g = g\<lparr>heap := heap g
                        @ [\<lparr>Config = cc, Handler = handler, requests = [], sessions = 0\<rparr>]\<rparr>
             in (ensureMetrics (ID cc) g, AList.update (Domain cc) a newConns)))"

fun applyConnections ::
  "ConnectionConfig list \<Rightarrow> Gateway \<times> (string \<times> nat) list \<Rightarrow> Gateway \<times> (string \<times> nat) list" where
  "applyConnections [] st = st"
| "applyConnections (cc # ccs) st = applyConnections ccs (applyConnection cc st)"

definition ApplyConfig :: "GatewayConfig \<Rightarrow> Gateway \<Rightarrow> Gateway" where
  "ApplyConfig cfg g =
    (let g = g\<lparr>pepper := Pepper cfg, version := Version cfg,
               gatewayID := GatewayID cfg, serverID := ServerID cfg\<rparr>
     in case applyConnections (Connections cfg) (g, []) of
          (g, newConns) \<Rightarrow> g\<lparr>connections := newConns\<rparr>)"

definition GetConnection :: "Gateway \<Rightarrow> string \<Rightarrow> nat option" where
  "GetConnection g domain = map_of (connections g) domain"

section \<open>Metrics collection\<close>

record MetricsReport =
  ConnectionID :: string
  reportRequestCount :: "64 word"
  reportErrorCount :: "64 word"
  reportAuthFailures :: "64 word"
  P95LatencyMs :: real
  reportActiveSessions :: int
  reportLastRequestAt :: string

text \<open>The two nested loops that sort the copy of the samples: for every \<open>i\<close>, every
  later \<open>j\<close> whose element is smaller is exchanged with position \<open>i\<close>.\<close>

definition exchange :: "nat \<Rightarrow> nat \<Rightarrow> real list \<Rightarrow> real list" where
  "exchange i j buf =
    (if buf ! i > buf ! j then buf[i := buf ! j, j := buf ! i] else buf)"

definition sortLoop :: "real list \<Rightarrow> real list" where
  "sortLoop samples =
    fold (\<lambda>i buf. fold (exchange i) [i + 1 ..< length buf] buf)
         [0 ..< length samples] samples"

text \<open>The index \<^verbatim>\<open>int(float64(len(sorted)) * 0.95)\<close> is taken as the floor of 0.95 n,
  which the rounded product yields for every length a latency window reaches.\<close>

definition calculateP95 :: "real list \<Rightarrow> real" where
  "calculateP95 latencies =
    (if length latencies > 0 then
       let buf = sortLoop latencies;
           idx = (95 * length buf) div 100;
           idx = (if idx \<ge> length buf then length buf - 1 else idx)
       in buf ! idx
     else 0)"

definition activeSessionsOf :: "Gateway \<Rightarrow> string \<Rightarrow> int" where
  "activeSessionsOf g connID =
    (case find (\<lambda>(domain, a). ID (Config (heap g ! a)) = connID) (connections g) of
       None \<Rightarrow> 0
     | Some (domain, a) \<Rightarrow> sint (sessions (heap g ! a)))"

definition noDelta :: "Metrics \<Rightarrow> bool" where
  "noDelta m = (RequestCount m = 0 \<and> ErrorCount m = 0 \<and> AuthFailures m = 0)"

definition reportOf :: "('z lib_scheme) \<Rightarrow> Gateway \<Rightarrow> string \<Rightarrow> Metrics \<Rightarrow> MetricsReport" where
  "reportOf L g connID m =
    \<lparr>ConnectionID = connID,
     reportRequestCount = RequestCount m,
     reportErrorCount = ErrorCount m,
     reportAuthFailures = AuthFailures m,
     P95LatencyMs = calculateP95 (Latencies m),
     reportActiveSessions = activeSessionsOf g connID,
     reportLastRequestAt =
       (case LastRequestAt m of None \<Rightarrow> [] | Some t \<Rightarrow> format_RFC3339 L t)\<rparr>"

text \<open>The loop over \<^verbatim>\<open>g.metrics\<close>, in the order of the association list.\<close>

fun collectLoop ::
  "('z lib_scheme) \<Rightarrow> Gateway \<Rightarrow> (string \<times> Metrics) list
     \<Rightarrow> MetricsReport list \<times> (string \<times> Metrics) list" where
  "collectLoop L g [] = ([], [])"
| "collectLoop L g ((connID, m) # rest) =
    (case collectLoop L g rest of (reports, rest') \<Rightarrow>
       if noDelta m then (reports, (connID, m) # rest')
       else (reportOf L g connID m # reports,
             (connID, m\<lparr>RequestCount := 0, ErrorCount := 0, AuthFailures := 0,
                         Latencies := take 0 (Latencies m)\<rparr>) # rest'))"

definition CollectAndResetMetrics ::
  "('z lib_scheme) \<Rightarrow> Gateway \<Rightarrow> MetricsReport list \<times> Gateway" where
  "CollectAndResetMetrics L g =
    (case collectLoop L g (metrics g) of (reports, ms) \<Rightarrow> (reports, g\<lparr>metrics := ms\<rparr>))"

section \<open>Configuration reconciler (poller)\<close>

record Poller =
  apiURL :: string
  token :: string
  failures :: int
  traefikDir :: string

text \<open>What one tick meets: \<^verbatim>\<open>http.NewRequest\<close> failing, the transport failing, or an
  answer with its status, its \<^verbatim>\<open>X-Gateway-Token\<close> header (empty when absent) and the
  body that \<^verbatim>\<open>io.ReadAll\<close> returns (\<open>None\<close> on a read error).\<close>

datatype syncOutcome =
    RequestError
  | TransportFailure
  | Answer int string "string option"

text \<open>\<^verbatim>\<open>syncConfig\<close>.  \<^verbatim>\<open>GenerateTraefikConfig\<close>, called after a configuration was
  applied, writes files from the directory name and the connection list and is left out.\<close>

definition syncConfig ::
  "('z lib_scheme) \<Rightarrow> syncOutcome \<Rightarrow> Poller \<times> Gateway \<Rightarrow> Poller \<times> Gateway" where
  "syncConfig L outcome pg =
    (case pg of (p, g) \<Rightarrow>
     case outcome of
       RequestError \<Rightarrow> (p, g)
     | TransportFailure \<Rightarrow> (p\<lparr>failures := failures p + 1\<rparr>, g)
     | Answer statusCode newToken readAll \<Rightarrow>
        let p = (if newToken \<noteq> [] then p\<lparr>token := newToken\<rparr> else p) in
        if statusCode = 304 then (p\<lparr>failures := 0\<rparr>, g)
        else if statusCode = 200 then
          (let p = p\<lparr>failures := 0\<rparr> in
           case readAll of
             None \<Rightarrow> (p, g)
           | Some body \<Rightarrow>
              (case decode_sync L body of
                 None \<Rightarrow> (p, g)
               | Some (success, data) \<Rightarrow>
                  if \<not> success then (p, g) else (p, ApplyConfig data g)))
        else if statusCode = 401 \<or> statusCode = 403 then (p\<lparr>failures := failures p + 1\<rparr>, g)
        else (p\<lparr>failures := failures p + 1\<rparr>, g))"

section \<open>Runs and sample data\<close>

text \<open>The effective per-minute ceiling of a connection, and the decisions of a run of
  \<^verbatim>\<open>CheckRateLimit\<close> calls at the given instants.\<close>

definition ceilingOf :: "Connection \<Rightarrow> int" where
  "ceilingOf conn = (if RateLimit (Config conn) \<le> 0 then 60 else RateLimit (Config conn))"

fun serve :: "time list \<Rightarrow> Connection \<Rightarrow> bool list \<times> Connection" where
  "serve [] c = ([], c)"
| "serve (t # ts) c =
     (case CheckRateLimit t c of (ok, c') \<Rightarrow>
        (case serve ts c' of (oks, c'') \<Rightarrow> (ok # oks, c'')))"

definition inWindow :: "time \<Rightarrow> Connection \<Rightarrow> nat" where
  "inWindow T c = length (filter (\<lambda>x. T - Minute < x) (requests c))"

text \<open>Sequences of calls on the session counter; \<open>incBelowMax\<close> holds when no
  \<^verbatim>\<open>IncrementSessions\<close> of the run meets the counter at the largest \<^verbatim>\<open>int32\<close>.\<close>

datatype sessionCall = Inc | Dec

fun stepSession :: "sessionCall \<Rightarrow> Connection \<Rightarrow> Connection" where
  "stepSession Inc c = IncrementSessions c"
| "stepSession Dec c = DecrementSessions c"

fun runSessionCalls :: "sessionCall list \<Rightarrow> Connection \<Rightarrow> Connection" where
  "runSessionCalls [] c = c"
| "runSessionCalls (x # xs) c = runSessionCalls xs (stepSession x c)"

fun incBelowMax :: "sessionCall list \<Rightarrow> Connection \<Rightarrow> bool" where
  "incBelowMax [] c = True"
| "incBelowMax (Inc # xs) c =
     (sint (sessions c) < 2147483647 \<and> incBelowMax xs (IncrementSessions c))"
| "incBelowMax (Dec # xs) c = incBelowMax xs (DecrementSessions c)"

text \<open>
  Sample data.  \<open>sampleLib\<close> is the library on the inputs of the examples: the three
  digests are the SHA-256 values of the listed strings, the instant is the listed date
  in nanoseconds since 1970, and each JSON text is listed with its value or with the
  sync answer it decodes to.  Its \<open>float64\<close> is the conversion on the numbers of the
  examples: 1 is a \<^verbatim>\<open>float64\<close>, 9007199254740993 lies halfway between two of them and
  goes to the even one, 9007199254740992, and 1e999 is out of range.
\<close>

definition pingWithoutId :: string where
  \<open>pingWithoutId = ''{"jsonrpc":"2.0","method":"ping"}''\<close>

definition initializeEmptyVersion :: string where
  \<open>initializeEmptyVersion =
     ''{"jsonrpc":"2.0","id":1,"method":"initialize","params":{"protocolVersion":""}}''\<close>

definition initializeOldVersion :: string where
  \<open>initializeOldVersion =
     ''{"jsonrpc":"2.0","id":1,"method":"initialize","params":{"protocolVersion":"2023-01-01"}}''\<close>

definition initializeBigId :: string where
  \<open>initializeBigId = ''{"jsonrpc":"2.0","id":9007199254740993,"method":"initialize"}''\<close>

definition initializeOldProtocol :: string where
  \<open>initializeOldProtocol = ''{"jsonrpc":"1.0","id":1,"method":"initialize"}''\<close>

definition pingWithOverflow :: string where
  \<open>pingWithOverflow = ''{"jsonrpc":"2.0","id":1,"method":"ping","x":1e999}''\<close>

definition oneE999 :: real where
  "oneE999 = 10 ^ 999"

definition syncAnswer :: string where
  \<open>syncAnswer =
     ''{"success":true,"data":{"serverId":"srv","gatewayId":"gw","pepper":"pepper-2","connections":[],"version":2}}''\<close>

definition syncRefused :: string where
  \<open>syncRefused = ''{"success":false}''\<close>

definition sampleLib :: lib where
  "sampleLib =
    \<lparr>sha256_hex = (\<lambda>s. case map_of
        [(''pepper-1key-current'',
            ''23f890d85a0274c1be37f9694997beaa8e28d2ed4cacc03e0954f0f5dd14e233''),
         (''pepper-1key-previous'',
            ''dba710a28ff2753c1fbc253341e5c10ecd1ab8d03edfc177bfde3762617ca02b''),
         (''pepper-1key-wrong'',
            ''3aea3aa95059b75b92cf443ecba02dbe6061e58946a0f0b80623317764bac433'')] s of
        Some h \<Rightarrow> h | None \<Rightarrow> []),
     parse_RFC3339 = map_of [(''2026-01-01T00:00:00Z'', 1767225600000000000)],
     format_RFC3339 = (\<lambda>t. if t = 1767225600000000000 then ''2026-01-01T00:00:00Z'' else []),
     json_syntax = map_of
       [(pingWithoutId, JObject [(''jsonrpc'', JString ''2.0''), (''method'', JString ''ping'')]),
        (initializeEmptyVersion,
           JObject [(''jsonrpc'', JString ''2.0''), (''id'', JNumber 1),
                    (''method'', JString ''initialize''),
                    (''params'', JObject [(''protocolVersion'', JString [])])]),
        (initializeOldVersion,
           JObject [(''jsonrpc'', JString ''2.0''), (''id'', JNumber 1),
                    (''method'', JString ''initialize''),
                    (''params'', JObject [(''protocolVersion'', JString ''2023-01-01'')])]),
        (''null'', JNull),
        (initializeBigId,
           JObject [(''jsonrpc'', JString ''2.0''), (''id'', JNumber 9007199254740993),
                    (''method'', JString ''initialize'')]),
        (initializeOldProtocol,
           JObject [(''jsonrpc'', JString ''1.0''), (''id'', JNumber 1),
                    (''method'', JString ''initialize'')]),
        (pingWithOverflow,
           JObject [(''jsonrpc'', JString ''2.0''), (''id'', JNumber 1),
                    (''method'', JString ''ping''), (''x'', JNumber oneE999)])],
     float64 = (\<lambda>r. if r = 9007199254740993 then Some 9007199254740992
                    else if r = oneE999 then None else Some r),
     decode_sync = map_of
       [(syncAnswer, (True, \<lparr>ServerID = ''srv'', GatewayID = ''gw'', Pepper = ''pepper-2'',
                              Connections = [], Version = 2\<rparr>)),
        (syncRefused, (False, \<lparr>ServerID = [], GatewayID = [], Pepper = [],
                                Connections = [], Version = 0\<rparr>))],
     profile_Tools = (\<lambda>p. []),
     profile_CallTool = (\<lambda>p name args env. Inl ''unknown tool'')\<rparr>"

definition sampleConfig :: ConnectionConfig where
  "sampleConfig =
    \<lparr>ID = ''c1'', Slug = ''tenant'', Domain = ''tenant.example'', Profile = ''time'',
     APIKeyHash = ''23f890d85a0274c1be37f9694997beaa8e28d2ed4cacc03e0954f0f5dd14e233'',
     PrevKeyHash = ''dba710a28ff2753c1fbc253341e5c10ecd1ab8d03edfc177bfde3762617ca02b'',
     PrevKeyExpiry = ''2026-01-01T00:00:00Z'', Enabled = True, EnvVars = [],
     RateLimit = 3, MaxConcurrency = 0, CreatedAt = []\<rparr>"

definition sampleConn :: Connection where
  "sampleConn =
    \<lparr>Config = sampleConfig, Handler = NewHandler ''time'' [], requests = [], sessions = 0\<rparr>"

definition sampleGateway :: Gateway where
  "sampleGateway =
    \<lparr>connections = [(''tenant.example'', 0)], pepper = ''pepper-1'', version = 1,
     gatewayID = ''gw'', serverID = ''srv'', metrics = [(''c1'', zeroMetrics)],
     heap = [sampleConn]\<rparr>"

definition sampleInstant :: time where
  "sampleInstant = 1767000000000000000"

definition sampleSession :: Session where
  "sampleSession = \<lparr>sessionID = ''s_1'', ConnID = ''c1'', Messages = [], sessionDone = False\<rparr>"

definition sampleServer :: Server where
  "sampleServer = \<lparr>srvSessions = [(''s_1'', sampleSession)]\<rparr>"

text \<open>The sample gateway after a request at \<open>sampleInstant\<close> was admitted.\<close>

definition sampleAdmitted :: Gateway where
  "sampleAdmitted = sampleGateway\<lparr>heap := [sampleConn\<lparr>requests := [sampleInstant]\<rparr>]\<rparr>"

text \<open>A request with the current credential on session \<open>s_1\<close>, its body arriving as
  the given reads.\<close>

definition requestWith :: "(string \<times> bool) list \<Rightarrow> Request" where
  "requestWith reads =
    \<lparr>Authorization = ''Bearer key-current'', querySessionId = ''s_1'',
     headerMcpSessionId = [], Body = reads\<rparr>"

text \<open>Bodies that are no JSON text: 256 reads filling the 4096-byte buffer followed by
  one more byte that arrives together with \<^verbatim>\<open>io.EOF\<close> (1 MiB + 1 byte), and 257 full
  reads.\<close>

definition fullChunk :: string where
  "fullChunk = replicate 4096 (CHR ''x'')"

definition oversizedByOne :: "(string \<times> bool) list" where
  "oversizedByOne = replicate 256 (fullChunk, False) @ [(''x'', True)]"

definition oversizedReads :: "(string \<times> bool) list" where
  "oversizedReads = replicate 256 (fullChunk, False) @ [(fullChunk, False)]"

text \<open>A body that is no JSON text, or whose top-level value is neither an object nor
  \<^verbatim>\<open>null\<close>.\<close>

definition notAnObject :: "('z lib_scheme) \<Rightarrow> string \<Rightarrow> bool" where
  "notAnObject L body =
    (case json_syntax L body of
       None \<Rightarrow> True
     | Some JNull \<Rightarrow> False
     | Some (JObject kvs) \<Rightarrow> False
     | Some _ \<Rightarrow> True)"


text \<open>What the params of an \<^verbatim>\<open>initialize\<close> request carry as protocol version, when
  they are present and decode; and the two kinds of reply.\<close>

definition presentedVersion :: "JSONRPCRequest \<Rightarrow> string option" where
  "presentedVersion req =
    (if rqParams req = JNull then None
     else map_option ipProtocolVersion (decodeInitializeParams (rqParams req)))"



definition sampleRequest :: "json \<Rightarrow> JSONRPCRequest" where
  "sampleRequest params =
    \<lparr>rqJSONRPC = ''2.0'', rqID = JNumber 1, rqMethod = ''initialize'', rqParams = params\<rparr>"

definition samplePoller :: Poller where
  "samplePoller = \<lparr>apiURL = ''https://api.example'', token = ''t0'', failures = 0,
     traefikDir = []\<rparr>"

text \<open>A configuration that changes the environment and the ceiling of the sample
  tenant, and a gateway with three metrics entries.\<close>

definition updatedConfig :: ConnectionConfig where
  "updatedConfig = sampleConfig\<lparr>EnvVars := [(''TZ'', ''UTC'')], RateLimit := 5\<rparr>"

definition sampleUpdate :: GatewayConfig where
  "sampleUpdate = \<lparr>ServerID = ''srv'', GatewayID = ''gw'', Pepper = ''pepper-1'',
     Connections = [updatedConfig], Version = 2\<rparr>"

text \<open>A configuration with two connections for the sample tenant's domain, the second
  with another profile.\<close>

definition duplicateUpdate :: GatewayConfig where
  "duplicateUpdate = \<lparr>ServerID = ''srv'', GatewayID = ''gw'', Pepper = ''pepper-1'',
     Connections = [updatedConfig, updatedConfig\<lparr>Profile := ''fetch''\<rparr>], Version = 3\<rparr>"

definition sampleMeasured :: Gateway where
  "sampleMeasured = sampleGateway\<lparr>metrics :=
     [(''c1'', zeroMetrics\<lparr>RequestCount := 3, Latencies := [30, 10, 20]\<rparr>),
      (''c2'', zeroMetrics),
      (''c3'', zeroMetrics\<lparr>AuthFailures := 1\<rparr>)]\<rparr>"

section \<open>Verified properties\<close>

subsection \<open>Credential verifier\<close>

text \<open>
  C1.  \<^verbatim>\<open>VerifyAPIKey\<close> accepts exactly when the hex SHA-256 digest of the applied pepper
  followed by the credential equals the primary hash, or when the previous hash is
  non-empty, its expiry is present, parses and lies strictly after \<open>now\<close>, and the digest
  equals the previous hash.  In every other case, also at the expiry instant and after
  it, it rejects.
\<close>

theorem VerifyAPIKey_accepts_iff:
  "VerifyAPIKey L now g conn apiKey \<longleftrightarrow>
     sha256_hex L (pepper g @ apiKey) = APIKeyHash (Config conn)
     \<or> (PrevKeyHash (Config conn) \<noteq> [] \<and>
        (\<exists>expiry. PrevKeyExpiry (Config conn) \<noteq> [] \<and>
                  parse_RFC3339 L (PrevKeyExpiry (Config conn)) = Some expiry \<and> now < expiry) \<and>
        sha256_hex L (pepper g @ apiKey) = PrevKeyHash (Config conn))"
  by (auto simp: VerifyAPIKey_def ConstantTimeCompare_def Let_def split: option.splits)

theorem VerifyAPIKey_accepts_iff_witness:
  "VerifyAPIKey sampleLib sampleInstant sampleGateway sampleConn ''key-current''
   \<and> VerifyAPIKey sampleLib sampleInstant sampleGateway sampleConn ''key-previous''
   \<and> \<not> VerifyAPIKey sampleLib 1767225600000000000 sampleGateway sampleConn ''key-previous''
   \<and> VerifyAPIKey sampleLib 1767225600000000000 sampleGateway sampleConn ''key-current''
   \<and> \<not> VerifyAPIKey sampleLib sampleInstant sampleGateway sampleConn ''key-wrong''"
  using VerifyAPIKey_accepts_iff [of sampleLib sampleInstant sampleGateway sampleConn "''key-current''"]
        VerifyAPIKey_accepts_iff [of sampleLib sampleInstant sampleGateway sampleConn "''key-previous''"]
        VerifyAPIKey_accepts_iff [of sampleLib 1767225600000000000 sampleGateway sampleConn "''key-previous''"]
        VerifyAPIKey_accepts_iff [of sampleLib 1767225600000000000 sampleGateway sampleConn "''key-current''"]
        VerifyAPIKey_accepts_iff [of sampleLib sampleInstant sampleGateway sampleConn "''key-wrong''"]
  by (simp add: sampleLib_def sampleGateway_def sampleConn_def sampleConfig_def sampleInstant_def)

subsection \<open>Rate limiter\<close>

lemma keepValid_filter: "keepValid w acc ts = acc @ filter (\<lambda>t. w < t) ts"
  by (induction ts arbitrary: acc) simp_all

lemma CheckRateLimit_eq:
  "CheckRateLimit now conn =
     (if ceilingOf conn \<le> int (length (filter (\<lambda>t. now - Minute < t) (requests conn)))
      then (False, conn\<lparr>requests := filter (\<lambda>t. now - Minute < t) (requests conn)\<rparr>)
      else (True, conn\<lparr>requests := filter (\<lambda>t. now - Minute < t) (requests conn) @ [now]\<rparr>))"
  by (simp add: CheckRateLimit_def ceilingOf_def keepValid_filter Let_def)

lemma CheckRateLimit_Config: "Config (snd (CheckRateLimit now conn)) = Config conn"
  by (simp add: CheckRateLimit_eq)

lemma ceilingOf_CheckRateLimit: "ceilingOf (snd (CheckRateLimit now conn)) = ceilingOf conn"
  by (simp add: ceilingOf_def CheckRateLimit_Config)

lemma ceilingOf_serve: "ceilingOf (snd (serve ts c)) = ceilingOf c"
proof (induction ts arbitrary: c)
  case Nil then show ?case by simp
next
  case (Cons t ts)
  obtain ok c' where 1: "CheckRateLimit t c = (ok, c')" by (cases "CheckRateLimit t c")
  obtain oks c'' where 2: "serve ts c' = (oks, c'')" by (cases "serve ts c'")
  show ?case using Cons.IH [of c'] ceilingOf_CheckRateLimit [of t c] 1 2 by simp
qed

lemma inWindow_admit:
  assumes "fst (CheckRateLimit t c)" "T - Minute < t" "t \<le> T"
  shows "inWindow T (snd (CheckRateLimit t c)) = Suc (inWindow T c)"
proof -
  have "filter (\<lambda>x. T - Minute < x) (filter (\<lambda>x. t - Minute < x) (requests c))
        = filter (\<lambda>x. T - Minute < x) (requests c)"
    using assms(3) by (auto intro: filter_cong)
  with assms show ?thesis
    by (simp add: CheckRateLimit_eq inWindow_def split: if_splits)
qed

lemma inWindow_serve:
  "\<forall>t\<in>set ts. T - Minute < t \<and> t \<le> T \<Longrightarrow> fst (serve ts c) = replicate (length ts) True \<Longrightarrow>
   inWindow T (snd (serve ts c)) = inWindow T c + length ts"
proof (induction ts arbitrary: c)
  case Nil then show ?case by simp
next
  case (Cons t ts)
  obtain ok c' where 1: "CheckRateLimit t c = (ok, c')" by (cases "CheckRateLimit t c")
  obtain oks c'' where 2: "serve ts c' = (oks, c'')" by (cases "serve ts c'")
  from Cons.prems(2) 1 2 have ok: "ok" and oks: "fst (serve ts c') = replicate (length ts) True"
    by simp_all
  have "inWindow T c' = Suc (inWindow T c)"
    using inWindow_admit [of t c T] 1 ok Cons.prems(1) by simp
  moreover have "inWindow T (snd (serve ts c')) = inWindow T c' + length ts"
    using Cons.IH [of c'] Cons.prems(1) oks by simp
  ultimately show ?case using 1 2 by simp
qed

lemma reject_when_full:
  "ceilingOf c \<le> int (inWindow T c) \<Longrightarrow> \<not> fst (CheckRateLimit T c)"
  by (simp add: CheckRateLimit_eq inWindow_def)

lemma length_requests_admit:
  "length (requests (snd (CheckRateLimit t c))) \<le> Suc (length (requests c))"
  by (simp add: CheckRateLimit_eq le_SucI)

lemma admit_when_short:
  "int (length (requests c)) < ceilingOf c \<Longrightarrow> fst (CheckRateLimit t c)"
proof -
  have "length (filter (\<lambda>x. t - Minute < x) (requests c)) \<le> length (requests c)" by simp
  moreover assume "int (length (requests c)) < ceilingOf c"
  ultimately have "\<not> ceilingOf c \<le> int (length (filter (\<lambda>x. t - Minute < x) (requests c)))"
    by linarith
  then show ?thesis by (simp add: CheckRateLimit_eq)
qed

lemma serve_all_admitted:
  "int (length (requests c) + length ts) \<le> ceilingOf c \<Longrightarrow>
   fst (serve ts c) = replicate (length ts) True"
proof (induction ts arbitrary: c)
  case Nil then show ?case by simp
next
  case (Cons t ts)
  obtain ok c' where 1: "CheckRateLimit t c = (ok, c')" by (cases "CheckRateLimit t c")
  have ok: "ok" using admit_when_short [of c t] Cons.prems 1 by simp
  have "length (requests c') \<le> Suc (length (requests c))"
    using length_requests_admit [of t c] 1 by simp
  moreover have "ceilingOf c' = ceilingOf c" using ceilingOf_CheckRateLimit [of t c] 1 by simp
  ultimately have "fst (serve ts c') = replicate (length ts) True"
    using Cons.IH [of c'] Cons.prems by simp
  moreover obtain oks c'' where 2: "serve ts c' = (oks, c'')" by (cases "serve ts c'")
  ultimately show ?case using 1 ok by simp
qed

lemma serve_append:
  "serve (ts @ us) c = (case serve ts c of (oks, c') \<Rightarrow>
      (case serve us c' of (oks', c'') \<Rightarrow> (oks @ oks', c'')))"
  by (induction ts arbitrary: c) (simp_all split: prod.splits)

text \<open>
  C2.  A decision of \<^verbatim>\<open>CheckRateLimit\<close> first removes every instant at or before
  \<open>now - 60s\<close>; it rejects exactly when the number of remaining instants has reached the
  ceiling (60 when the configured one is not positive), keeping the pruned window, and
  otherwise admits and appends \<open>now\<close>.  Hence, with ceiling N: once N requests of a run
  were admitted at instants within the 60 seconds up to \<open>now\<close>, the request at \<open>now\<close> is
  rejected; and on a connection with an empty window the first N requests of such a run
  are admitted and request N+1 is rejected.
\<close>

theorem CheckRateLimit_sliding_window:
  "CheckRateLimit now conn =
     (if ceilingOf conn \<le> int (length (filter (\<lambda>t. \<not> t \<le> now - Minute) (requests conn)))
      then (False, conn\<lparr>requests := filter (\<lambda>t. \<not> t \<le> now - Minute) (requests conn)\<rparr>)
      else (True, conn\<lparr>requests := filter (\<lambda>t. \<not> t \<le> now - Minute) (requests conn) @ [now]\<rparr>))
   \<and> (int (length ts) = ceilingOf conn \<and> (\<forall>t\<in>set ts. now - Minute < t \<and> t \<le> now) \<and>
        fst (serve ts conn) = replicate (length ts) True
        \<longrightarrow> \<not> fst (CheckRateLimit now (snd (serve ts conn))))
   \<and> (requests conn = [] \<and> int (length ts) = ceilingOf conn \<and>
        (\<forall>t\<in>set ts. now - Minute < t \<and> t \<le> now)
        \<longrightarrow> fst (serve (ts @ [now]) conn) = replicate (length ts) True @ [False])"
proof (intro conjI impI)
  have eq: "(\<lambda>t. \<not> t \<le> now - Minute) = (\<lambda>t. now - Minute < t)" by auto
  show "CheckRateLimit now conn =
     (if ceilingOf conn \<le> int (length (filter (\<lambda>t. \<not> t \<le> now - Minute) (requests conn)))
      then (False, conn\<lparr>requests := filter (\<lambda>t. \<not> t \<le> now - Minute) (requests conn)\<rparr>)
      else (True, conn\<lparr>requests := filter (\<lambda>t. \<not> t \<le> now - Minute) (requests conn) @ [now]\<rparr>))"
    unfolding eq by (rule CheckRateLimit_eq)
next
  assume a: "int (length ts) = ceilingOf conn \<and> (\<forall>t\<in>set ts. now - Minute < t \<and> t \<le> now) \<and>
        fst (serve ts conn) = replicate (length ts) True"
  then have "inWindow now (snd (serve ts conn)) = inWindow now conn + length ts"
    using inWindow_serve [of ts now conn] by simp
  then have "ceilingOf (snd (serve ts conn)) \<le> int (inWindow now (snd (serve ts conn)))"
    using a by (simp add: ceilingOf_serve)
  then show "\<not> fst (CheckRateLimit now (snd (serve ts conn)))" by (rule reject_when_full)
next
  assume a: "requests conn = [] \<and> int (length ts) = ceilingOf conn \<and>
        (\<forall>t\<in>set ts. now - Minute < t \<and> t \<le> now)"
  then have adm: "fst (serve ts conn) = replicate (length ts) True"
    using serve_all_admitted [of conn ts] by simp
  then have "inWindow now (snd (serve ts conn)) = inWindow now conn + length ts"
    using inWindow_serve [of ts now conn] a by simp
  then have "ceilingOf (snd (serve ts conn)) \<le> int (inWindow now (snd (serve ts conn)))"
    using a by (simp add: ceilingOf_serve)
  then have "\<not> fst (CheckRateLimit now (snd (serve ts conn)))" by (rule reject_when_full)
  with adm show "fst (serve (ts @ [now]) conn) = replicate (length ts) True @ [False]"
    by (cases "serve ts conn"; cases "CheckRateLimit now (snd (serve ts conn))")
       (simp add: serve_append)
qed

theorem CheckRateLimit_sliding_window_witness:
  "requests sampleConn = [] \<and> int (length [1000000000, 2000000000, 3000000000 :: int]) = ceilingOf sampleConn
   \<and> 4000000000 - Minute < 1000000000 \<and> (3000000000 :: int) \<le> 4000000000
   \<and> fst (serve [1000000000, 2000000000, 3000000000] sampleConn) = [True, True, True]
   \<and> fst (serve ([1000000000, 2000000000, 3000000000] @ [4000000000]) sampleConn)
       = [True, True, True, False]
   \<and> \<not> fst (CheckRateLimit 4000000000 (snd (serve [1000000000, 2000000000, 3000000000] sampleConn)))"
  using CheckRateLimit_sliding_window
          [of 4000000000 sampleConn "[1000000000, 2000000000, 3000000000]"]
  by (simp add: sampleConn_def sampleConfig_def ceilingOf_def Minute_def CheckRateLimit_def)

subsection \<open>Session counter\<close>

lemma sint_inc32:
  "0 \<le> sint (w :: 32 word) \<Longrightarrow> sint w < 2147483647 \<Longrightarrow> sint (w + 1) = sint w + 1"
  by (simp add: sint_word_ariths signed_take_bit_int_eq_self)

lemma sint_dec32: "0 < sint (w :: 32 word) \<Longrightarrow> sint (w - 1) = sint w - 1"
  using sint_lt [of w] by (simp add: sint_word_ariths signed_take_bit_int_eq_self)

lemma stepSession_nonneg:
  "0 \<le> sint (sessions c) \<Longrightarrow> incBelowMax [x] c \<Longrightarrow> 0 \<le> sint (sessions (stepSession x c))"
  by (cases x) (simp_all add: IncrementSessions_def DecrementSessions_def sint_inc32 sint_dec32)

lemma runSessionCalls_nonneg:
  "0 \<le> sint (sessions c) \<Longrightarrow> incBelowMax xs c \<Longrightarrow> 0 \<le> sint (sessions (runSessionCalls xs c))"
proof (induction xs arbitrary: c)
  case Nil then show ?case by simp
next
  case (Cons x xs)
  then show ?case using stepSession_nonneg [of c x] by (cases x) simp_all
qed

lemma incBelowMax_take: "incBelowMax xs c \<Longrightarrow> incBelowMax (take k xs) c"
proof (induction xs arbitrary: c k)
  case Nil then show ?case by simp
next
  case (Cons x xs)
  then show ?case by (cases k; cases x) simp_all
qed

lemma runSessionCalls_replicate_Inc:
  "sessions (runSessionCalls (replicate n Inc) c) = sessions c + of_nat n"
  by (induction n arbitrary: c) (simp_all add: IncrementSessions_def)

text \<open>
  C10, as the code has it.  The counter is an \<^verbatim>\<open>int32\<close>: from a non-negative value,
  after every prefix of a sequence of \<^verbatim>\<open>IncrementSessions\<close> and \<^verbatim>\<open>DecrementSessions\<close>
  calls in which no increment meets the counter at 2147483647, the counter is at least 0;
  and \<^verbatim>\<open>DecrementSessions\<close> at 0 leaves it at 0.
\<close>

theorem sessions_nonnegative:
  assumes "0 \<le> sint (sessions c)" and "incBelowMax calls c"
  shows "0 \<le> sint (sessions (runSessionCalls (take k calls) c))
         \<and> (sint (sessions c) = 0 \<longrightarrow> sint (sessions (DecrementSessions c)) = 0)"
  using assms runSessionCalls_nonneg [of c "take k calls"] incBelowMax_take [of calls c k]
  by (simp add: DecrementSessions_def)

theorem sessions_nonnegative_witness:
  "0 \<le> sint (sessions sampleConn) \<and> incBelowMax [Inc, Dec, Dec, Inc] sampleConn
   \<and> sint (sessions (runSessionCalls (take 3 [Inc, Dec, Dec, Inc]) sampleConn)) = 0
   \<and> sint (sessions sampleConn) = 0 \<and> sint (sessions (DecrementSessions sampleConn)) = 0"
  using sessions_nonnegative [of sampleConn "[Inc, Dec, Dec, Inc]" 3]
  by (simp add: sampleConn_def IncrementSessions_def DecrementSessions_def)

text \<open>The claim as stated, for every sequence of calls, fails where the \<^verbatim>\<open>int32\<close>
  wraps: at 2147483647 one more \<^verbatim>\<open>IncrementSessions\<close> gives -2147483648, which is where
  2147483648 increments take a fresh connection.\<close>

theorem sessions_nonnegative_counterexample:
  "0 \<le> sint (sessions (sampleConn\<lparr>sessions := 2147483647\<rparr>))
   \<and> sint (sessions (IncrementSessions (sampleConn\<lparr>sessions := 2147483647\<rparr>))) = - 2147483648
   \<and> sint (sessions sampleConn) = 0
   \<and> sint (sessions (runSessionCalls (replicate 2147483648 Inc) sampleConn)) < 0"
  by (simp add: runSessionCalls_replicate_Inc IncrementSessions_def sampleConn_def)

subsection \<open>Protocol handler\<close>

lemmas sample_texts =
  pingWithoutId_def initializeEmptyVersion_def initializeOldVersion_def initializeBigId_def
  initializeOldProtocol_def pingWithOverflow_def

lemma oneE999_large: "1 < oneE999" "9007199254740993 < oneE999"
proof -
  have a: "(10::real) ^ 16 \<le> 10 ^ 999" by (rule power_increasing) simp_all
  have b: "(1::real) < 10 ^ 16" and c: "(9007199254740993::real) < 10 ^ 16" by simp_all
  show "1 < oneE999" unfolding oneE999_def by (rule less_le_trans [OF b a])
  show "9007199254740993 < oneE999" unfolding oneE999_def by (rule less_le_trans [OF c a])
qed

lemma float64_sample [simp]:
  "float64 sampleLib 1 = Some 1"
  "float64 sampleLib 9007199254740993 = Some 9007199254740992"
  "float64 sampleLib oneE999 = None"
proof -
  have "oneE999 \<noteq> 1" "oneE999 \<noteq> 9007199254740993" using oneE999_large by simp_all
  then show "float64 sampleLib 1 = Some 1"
    "float64 sampleLib 9007199254740993 = Some 9007199254740992"
    "float64 sampleLib oneE999 = None"
    by (simp_all add: sampleLib_def)
qed

lemma json_syntax_sample:
  "json_syntax sampleLib pingWithoutId
     = Some (JObject [(''jsonrpc'', JString ''2.0''), (''method'', JString ''ping'')])"
  "json_syntax sampleLib initializeEmptyVersion
     = Some (JObject [(''jsonrpc'', JString ''2.0''), (''id'', JNumber 1),
                    (''method'', JString ''initialize''),
                    (''params'', JObject [(''protocolVersion'', JString [])])])"
  "json_syntax sampleLib initializeOldVersion
     = Some (JObject [(''jsonrpc'', JString ''2.0''), (''id'', JNumber 1),
                    (''method'', JString ''initialize''),
                    (''params'', JObject [(''protocolVersion'', JString ''2023-01-01'')])])"
  "json_syntax sampleLib ''null'' = Some JNull"
  "json_syntax sampleLib initializeBigId
     = Some (JObject [(''jsonrpc'', JString ''2.0''), (''id'', JNumber 9007199254740993),
                    (''method'', JString ''initialize'')])"
  "json_syntax sampleLib initializeOldProtocol
     = Some (JObject [(''jsonrpc'', JString ''1.0''), (''id'', JNumber 1),
                    (''method'', JString ''initialize'')])"
  "json_syntax sampleLib pingWithOverflow
     = Some (JObject [(''jsonrpc'', JString ''2.0''), (''id'', JNumber 1),
                    (''method'', JString ''ping''), (''x'', JNumber oneE999)])"
  "json_syntax sampleLib ''not json'' = None"
  by (simp_all add: sampleLib_def sample_texts)

lemmas decode_simps =
  decodeInitializeParams_def marshalledMembers_def fieldFor_def isASCII_def toUpperASCII_def










text \<open>A frame that is not JSON-RPC 2.0 is answered with InvalidRequest whatever its
  method, and a key written with U+017F selects the field as the library's folding has
  it.\<close>

lemma old_protocol_invalid_request:
  "HandleMessage sampleLib h initializeOldProtocol
     = Some (errorResponse (JNumber 1) InvalidRequest ''Invalid JSON-RPC version'')"
  by (simp add: HandleMessage_def unmarshalRequest_def json_syntax_sample
        zeroRequest_def fieldFor_def InvalidRequest_def)

lemma long_s_key_selects_protocolVersion:
  "presentedVersion (sampleRequest (JObject
       [(''protocolVer'' @ [CHR 0xC5, CHR 0xBF] @ ''ion'', JString ''2023-01-01'')]))
     = Some ''2023-01-01''"
  by (simp add: presentedVersion_def sampleRequest_def decode_simps)

subsection \<open>HTTP transport\<close>

lemma sample_authenticated:
  "Authorization r = ''Bearer key-current'' \<Longrightarrow>
   authenticateRequest sampleLib sampleInstant r 0 sampleGateway = (None, sampleAdmitted)"
  by (simp add: authenticateRequest_def sampleGateway_def sampleConn_def sampleConfig_def
        VerifyAPIKey_def ConstantTimeCompare_def sampleLib_def CheckRateLimit_def
        sampleInstant_def sampleAdmitted_def Let_def Minute_def)

lemma readBody_replicate:
  "length body + n * length chunk \<le> 1024 * 1024 \<Longrightarrow>
   readBody (replicate n (chunk, False) @ rest) body
     = readBody rest (body @ concat (replicate n chunk))"
proof (induction n arbitrary: body)
  case 0 then show ?case by simp
next
  case (Suc n)
  then have "length (body @ chunk) + n * length chunk \<le> 1024 * 1024" by simp
  from Suc.IH [OF this] Suc.prems show ?case by (auto simp: Let_def)
qed

lemma length_concat_replicate: "length (concat (replicate n xs)) = n * length xs"
  by (induction n) simp_all

lemma readBody_oversizedByOne:
  "readBody oversizedByOne [] = Some (concat (replicate 256 fullChunk) @ ''x'')"
  unfolding oversizedByOne_def
  by (subst readBody_replicate) (simp_all add: fullChunk_def)

lemma readBody_oversizedReads: "readBody oversizedReads [] = None"
  unfolding oversizedReads_def
  by (subst readBody_replicate)
     (simp_all add: fullChunk_def length_concat_replicate Let_def)

lemma json_syntax_sampleLib_long:
  assumes "100 < length s"
  shows "json_syntax sampleLib s = None"
proof -
  have "length pingWithoutId \<le> 100" "length initializeEmptyVersion \<le> 100"
       "length initializeOldVersion \<le> 100" "length ''null'' \<le> 100"
       "length initializeBigId \<le> 100" "length initializeOldProtocol \<le> 100"
       "length pingWithOverflow \<le> 100"
    by (simp_all add: sample_texts)
  with assms have "pingWithoutId \<noteq> s" "initializeEmptyVersion \<noteq> s"
       "initializeOldVersion \<noteq> s" "''null'' \<noteq> s"
       "initializeBigId \<noteq> s" "initializeOldProtocol \<noteq> s" "pingWithOverflow \<noteq> s"
    by auto
  then show ?thesis by (simp add: sampleLib_def)
qed

lemma notAnObject_undecodable:
  assumes "notAnObject L body"
  shows "unmarshalMap L body = None" and "unmarshalRequest L body = None"
  using assms
  by (auto simp: notAnObject_def unmarshalMap_def unmarshalRequest_def
           split: option.splits json.splits)

lemma notAnObject_syntax_error: "json_syntax L body = None \<Longrightarrow> notAnObject L body"
  by (simp add: notAnObject_def)

lemma HandleMessage_undecodable:
  "unmarshalRequest L body = None \<Longrightarrow>
   HandleMessage L h body = Some (errorResponse JNull ParseError ''Parse error'')"
  by (simp add: HandleMessage_def)

lemma generateSessionID_nonempty: "generateSessionID now \<noteq> []"
  by (simp add: generateSessionID_def)

lemma digits_numeral:
  "digits (numeral k) n =
    (if n < 10 then [''0123456789'' ! n]
     else digits (pred_numeral k) (n div 10) @ [''0123456789'' ! (n mod 10)])"
  by (simp add: numeral_eq_Suc)

lemma sample_session_id: "generateSessionID sampleInstant = ''s_1767000000000000000_0''"
  by (simp add: generateSessionID_def sampleInstant_def formatInt_def truncRem_def
        truncQuot_def digits_numeral)

text \<open>On \<^verbatim>\<open>/mcp\<close> every frame that decodes into a map without the key \<^verbatim>\<open>id\<close> is
  answered with 202 and no body; and so is the body \<^verbatim>\<open>null\<close>, which decodes into the
  nil map.\<close>

lemma notification_accepted_without_body:
  assumes "authenticateRequest L now r a g = (None, g')"
    and "readBody (Body r) [] = Some body"
    and "unmarshalMap L body = Some rawMsg"
    and "map_of rawMsg ''id'' = None"
  shows "handleStreamableHTTP L now latency r a g = (writeHeaderOnly 202, g')"
  using assms by (simp add: handleStreamableHTTP_def isNotification_def Let_def)

lemma null_body_accepted_as_notification:
  assumes "authenticateRequest L now r a g = (None, g')"
    and "readBody (Body r) [] = Some body"
    and "json_syntax L body = Some JNull"
  shows "handleStreamableHTTP L now latency r a g = (writeHeaderOnly 202, g')"
  using assms
  by (simp add: handleStreamableHTTP_def isNotification_def unmarshalMap_def Let_def)


text \<open>A member with a number out of the range of \<^verbatim>\<open>float64\<close> under a key that selects
  no field fails the decoding into a map and not the one into the request: the frame is
  no notification and is answered as the request it is.\<close>

lemma overflowing_member_answered:
  "unmarshalMap sampleLib pingWithOverflow = None
   \<and> unmarshalRequest sampleLib pingWithOverflow
       = Some \<lparr>rqJSONRPC = ''2.0'', rqID = JNumber 1, rqMethod = ''ping'', rqParams = JNull\<rparr>
   \<and> HandleMessage sampleLib h pingWithOverflow = Some (resultResponse (JNumber 1) EmptyObject)"
  by (simp add: unmarshalMap_def unmarshalRequest_def HandleMessage_def json_syntax_sample
        zeroRequest_def fieldFor_def isASCII_def toUpperASCII_def)

text \<open>
  C9, as the code has it.  For a POST to \<^verbatim>\<open>/mcp\<close> that passes authentication, whose body
  is read to its end without the size check firing, and whose body is no JSON text or
  has a top-level value that is neither an object nor \<^verbatim>\<open>null\<close>: neither decoding
  succeeds, the notification short-circuit is skipped and the client receives
  status 200 with the JSON-RPC error -32700 and an \<^verbatim>\<open>mcp-session-id\<close> header, the
  client's own or, when it sent none, a freshly generated non-empty one.
\<close>

theorem undecodable_body_parse_error:
  assumes "authenticateRequest L now r a g = (None, g')"
    and "readBody (Body r) [] = Some body"
    and "notAnObject L body"
  shows "\<not> isNotification L body
     \<and> unmarshalMap L body = None \<and> unmarshalRequest L body = None
     \<and> fst (handleStreamableHTTP L now latency r a g) =
         \<lparr>status = 200,
          headers = [(''Content-Type'', ''application/json''),
                     (''mcp-session-id'',
                      if headerMcpSessionId r = [] then generateSessionID now
                      else headerMcpSessionId r)],
          written = JSONBody (errorResponse JNull (- 32700) ''Parse error'')\<rparr>
     \<and> generateSessionID now \<noteq> []"
  using assms(1,2) notAnObject_undecodable [OF assms(3)]
  by (simp add: handleStreamableHTTP_def isNotification_def HandleMessage_undecodable
        ParseError_def Let_def generateSessionID_nonempty)

theorem undecodable_body_parse_error_witness:
  "authenticateRequest sampleLib sampleInstant (requestWith [(''not json'', True)]) 0 sampleGateway
     = (None, sampleAdmitted)
   \<and> readBody (Body (requestWith [(''not json'', True)])) [] = Some ''not json''
   \<and> notAnObject sampleLib ''not json''
   \<and> fst (handleStreamableHTTP sampleLib sampleInstant 2 (requestWith [(''not json'', True)]) 0
            sampleGateway) =
         \<lparr>status = 200,
          headers = [(''Content-Type'', ''application/json''),
                     (''mcp-session-id'', ''s_1767000000000000000_0'')],
          written = JSONBody (errorResponse JNull (- 32700) ''Parse error'')\<rparr>"
proof -
  have 1: "authenticateRequest sampleLib sampleInstant (requestWith [(''not json'', True)]) 0
             sampleGateway = (None, sampleAdmitted)"
    by (rule sample_authenticated) (simp add: requestWith_def)
  have 2: "readBody (Body (requestWith [(''not json'', True)])) [] = Some ''not json''"
    by (simp add: requestWith_def)
  have 3: "notAnObject sampleLib ''not json''"
    by (simp add: notAnObject_def json_syntax_sample)
  have 4: "headerMcpSessionId (requestWith [(''not json'', True)]) = []"
    by (simp add: requestWith_def)
  show ?thesis
    using undecodable_body_parse_error [OF 1 2 3, of 2] 1 2 3 4
    by (simp add: sample_session_id)
qed

text \<open>The claim as stated, for every authenticated POST with an undecodable body, fails
  in three ways.  A body that is no JSON text and arrives in 257 full reads trips the size
  check and gets 413.  The body \<^verbatim>\<open>null\<close> is no object, decodes into the nil map and is
  taken for a notification: 202 and no body.  A frame with a number out of the range of
  \<^verbatim>\<open>float64\<close> in a member that the request ignores does not decode into a map and is
  answered as the request it is, here with the result of \<^verbatim>\<open>ping\<close>.\<close>

theorem undecodable_oversized_body_counterexample:
  "authenticateRequest sampleLib sampleInstant (requestWith oversizedReads) 0 sampleGateway
     = (None, sampleAdmitted)
   \<and> notAnObject sampleLib (concat (map fst oversizedReads))
   \<and> unmarshalMap sampleLib (concat (map fst oversizedReads)) = None
   \<and> fst (handleStreamableHTTP sampleLib sampleInstant 2 (requestWith oversizedReads) 0
            sampleGateway) = httpError ''Request too large'' 413
   \<and> status (httpError ''Request too large'' 413) = 413
   \<and> json_syntax sampleLib ''null'' = Some JNull
   \<and> fst (handleStreamableHTTP sampleLib sampleInstant 2 (requestWith [(''null'', True)]) 0
            sampleGateway) = writeHeaderOnly 202
   \<and> unmarshalMap sampleLib pingWithOverflow = None
   \<and> fst (handleStreamableHTTP sampleLib sampleInstant 2 (requestWith [(pingWithOverflow, True)])
            0 sampleGateway)
       = \<lparr>status = 200,
          headers = [(''Content-Type'', ''application/json''),
                     (''mcp-session-id'', ''s_1767000000000000000_0'')],
          written = JSONBody (resultResponse (JNumber 1) EmptyObject)\<rparr>"
proof -
  have 1: "authenticateRequest sampleLib sampleInstant (requestWith reads) 0
             sampleGateway = (None, sampleAdmitted)" for reads
    by (rule sample_authenticated) (simp add: requestWith_def)
  have "100 < length (concat (map fst oversizedReads))"
    by (simp add: oversizedReads_def fullChunk_def length_concat_replicate)
  then have 2: "notAnObject sampleLib (concat (map fst oversizedReads))"
    by (simp add: notAnObject_def json_syntax_sampleLib_long)
  note undecodable = notAnObject_undecodable(1) [OF 2]
  have 3: "fst (handleStreamableHTTP sampleLib sampleInstant 2 (requestWith oversizedReads) 0
            sampleGateway) = httpError ''Request too large'' 413"
    using 1 readBody_oversizedReads by (simp add: handleStreamableHTTP_def requestWith_def)
  have r: "readBody (Body (requestWith [(b, True)])) [] = Some b" for b
    by (simp add: requestWith_def)
  have 4: "fst (handleStreamableHTTP sampleLib sampleInstant 2 (requestWith [(''null'', True)]) 0
            sampleGateway) = writeHeaderOnly 202"
    using null_body_accepted_as_notification [OF 1 r json_syntax_sample(4), of 2] by simp
  have n: "\<not> isNotification sampleLib pingWithOverflow"
    using overflowing_member_answered by (simp add: isNotification_def)
  have h: "headerMcpSessionId (requestWith [(pingWithOverflow, True)]) = []"
    by (simp add: requestWith_def)
  have 5: "fst (handleStreamableHTTP sampleLib sampleInstant 2
                  (requestWith [(pingWithOverflow, True)]) 0 sampleGateway)
       = \<lparr>status = 200,
          headers = [(''Content-Type'', ''application/json''),
                     (''mcp-session-id'', ''s_1767000000000000000_0'')],
          written = JSONBody (resultResponse (JNumber 1) EmptyObject)\<rparr>"
    using 1 r n h overflowing_member_answered
    by (simp add: handleStreamableHTTP_def Let_def sample_session_id)
  show ?thesis
    using 1 2 undecodable 3 4 5 overflowing_member_answered json_syntax_sample(4)
    by (simp add: httpError_def)
qed

lemma sample_body_long: "100 < length (concat (replicate 256 fullChunk) @ ''x'')"
  by (simp add: fullChunk_def length_concat_replicate)

lemma concat_oversizedByOne:
  "concat (map fst oversizedByOne) = concat (replicate 256 fullChunk) @ ''x''"
  by (simp add: oversizedByOne_def)

text \<open>
  C7 at a failing input.  A body of 1 MiB + 1 byte whose last byte arrives together with
  \<^verbatim>\<open>io.EOF\<close> leaves the read loop through \<^verbatim>\<open>break\<close> before the size check: on
  \<^verbatim>\<open>/mcp\<close> the protocol handler is run on it and its reply is written with status 200,
  and on \<^verbatim>\<open>/message\<close> the handler's reply is enqueued on the session and the status
  is 202.  In neither case is the reply 413.
\<close>

theorem oversized_by_one_reaches_handler:
  "length (concat (map fst oversizedByOne)) = 1024 * 1024 + 1
   \<and> authenticateRequest sampleLib sampleInstant (requestWith oversizedByOne) 0 sampleGateway
       = (None, sampleAdmitted)
   \<and> readBody (Body (requestWith oversizedByOne)) [] = Some (concat (map fst oversizedByOne))
   \<and> HandleMessage sampleLib (Handler sampleConn) (concat (map fst oversizedByOne))
       = Some (errorResponse JNull ParseError ''Parse error'')
   \<and> status (fst (handleStreamableHTTP sampleLib sampleInstant 2 (requestWith oversizedByOne) 0
                    sampleGateway)) = 200
   \<and> written (fst (handleStreamableHTTP sampleLib sampleInstant 2 (requestWith oversizedByOne) 0
                    sampleGateway))
       = JSONBody (errorResponse JNull ParseError ''Parse error'')
   \<and> status (fst (handleSSEMessage sampleLib sampleInstant 2 (requestWith oversizedByOne) 0
                    (sampleServer, sampleGateway))) = 202
   \<and> map_of (srvSessions (fst (snd (handleSSEMessage sampleLib sampleInstant 2
                 (requestWith oversizedByOne) 0 (sampleServer, sampleGateway))))) ''s_1''
       = Some (sampleSession\<lparr>Messages := [errorResponse JNull ParseError ''Parse error'']\<rparr>)"
proof -
  have 0: "length (concat (map fst oversizedByOne)) = 1024 * 1024 + 1"
    by (simp add: oversizedByOne_def fullChunk_def length_concat_replicate)
  have 1: "authenticateRequest sampleLib sampleInstant (requestWith oversizedByOne) 0
             sampleGateway = (None, sampleAdmitted)"
    by (rule sample_authenticated) (simp add: requestWith_def)
  have 2: "readBody (Body (requestWith oversizedByOne)) []
             = Some (concat (map fst oversizedByOne))"
    by (simp add: requestWith_def readBody_oversizedByOne concat_oversizedByOne)
  have 3: "notAnObject sampleLib (concat (map fst oversizedByOne))"
    using sample_body_long
    by (simp add: notAnObject_def json_syntax_sampleLib_long concat_oversizedByOne)
  have 4: "HandleMessage sampleLib h (concat (map fst oversizedByOne))
             = Some (errorResponse JNull ParseError ''Parse error'')" for h
    by (rule HandleMessage_undecodable [OF notAnObject_undecodable(2) [OF 3]])
  have 5: "\<not> isNotification sampleLib (concat (map fst oversizedByOne))"
    using notAnObject_undecodable(1) [OF 3] by (simp add: isNotification_def)
  have 6: "heap sampleAdmitted ! 0 = sampleConn\<lparr>requests := [sampleInstant]\<rparr>"
    by (simp add: sampleAdmitted_def)
  have a: "fst (handleStreamableHTTP sampleLib sampleInstant 2 (requestWith oversizedByOne) 0
                    sampleGateway)
      = \<lparr>status = 200, headers = [(''Content-Type'', ''application/json''),
                     (''mcp-session-id'', generateSessionID sampleInstant)],
          written = JSONBody (errorResponse JNull ParseError ''Parse error'')\<rparr>"
    using 1 2 4 5 by (simp add: handleStreamableHTTP_def Let_def requestWith_def)
  have b: "handleSSEMessage sampleLib sampleInstant 2 (requestWith oversizedByOne) 0
                    (sampleServer, sampleGateway)
      = (writeHeaderOnly 202,
         sampleServer\<lparr>srvSessions := AList.update ''s_1''
            (enqueue (errorResponse JNull ParseError ''Parse error'') sampleSession)
            (srvSessions sampleServer)\<rparr>,
         RecordRequest sampleInstant ''c1'' 2 True sampleAdmitted)"
    using 1 2 4 6
    by (simp add: handleSSEMessage_def Let_def requestWith_def sampleServer_def
          isErrorResponse_def errorResponse_def sampleConn_def sampleConfig_def)
  show ?thesis
    unfolding a b using 0 1 2 4
    by (simp add: writeHeaderOnly_def sampleServer_def enqueue_def sampleSession_def)
qed

lemma pingWithoutId_decoded:
  "unmarshalMap sampleLib pingWithoutId
     = Some [(''jsonrpc'', JString ''2.0''), (''method'', JString ''ping'')]"
  by (simp add: unmarshalMap_def json_syntax_sample)

lemma pingWithoutId_handled:
  "HandleMessage sampleLib h pingWithoutId = Some (resultResponse JNull EmptyObject)"
  by (simp add: HandleMessage_def unmarshalRequest_def json_syntax_sample zeroRequest_def
        fieldFor_def)

text \<open>
  C3 at a failing input.  The frame \<^verbatim>\<open>{"jsonrpc":"2.0","method":"ping"}\<close> has no
  \<^verbatim>\<open>id\<close> key.  On \<^verbatim>\<open>/mcp\<close> it is answered with 202 and no body; on \<^verbatim>\<open>/message\<close>,
  which has no check for the key, the handler's reply to \<^verbatim>\<open>ping\<close> is enqueued on the
  session's outbound buffer.
\<close>

theorem sse_notification_response_enqueued:
  "unmarshalMap sampleLib pingWithoutId
     = Some [(''jsonrpc'', JString ''2.0''), (''method'', JString ''ping'')]
   \<and> map_of [(''jsonrpc'', JString ''2.0''), (''method'', JString ''ping'')] ''id'' = None
   \<and> authenticateRequest sampleLib sampleInstant (requestWith [(pingWithoutId, True)]) 0
        sampleGateway = (None, sampleAdmitted)
   \<and> map_of (srvSessions sampleServer) ''s_1'' = Some sampleSession
   \<and> Messages sampleSession = []
   \<and> fst (handleStreamableHTTP sampleLib sampleInstant 2 (requestWith [(pingWithoutId, True)]) 0
            sampleGateway) = writeHeaderOnly 202
   \<and> fst (handleSSEMessage sampleLib sampleInstant 2 (requestWith [(pingWithoutId, True)]) 0
            (sampleServer, sampleGateway)) = writeHeaderOnly 202
   \<and> map_of (srvSessions (fst (snd (handleSSEMessage sampleLib sampleInstant 2
                 (requestWith [(pingWithoutId, True)]) 0 (sampleServer, sampleGateway))))) ''s_1''
       = Some (sampleSession\<lparr>Messages := [resultResponse JNull EmptyObject]\<rparr>)"
proof -
  have 1: "authenticateRequest sampleLib sampleInstant (requestWith [(pingWithoutId, True)]) 0
             sampleGateway = (None, sampleAdmitted)"
    by (rule sample_authenticated) (simp add: requestWith_def)
  have 2: "readBody (Body (requestWith [(pingWithoutId, True)])) [] = Some pingWithoutId"
    by (simp add: requestWith_def pingWithoutId_def)
  have 3: "isNotification sampleLib pingWithoutId"
    by (simp add: isNotification_def pingWithoutId_decoded)
  have 6: "heap sampleAdmitted ! 0 = sampleConn\<lparr>requests := [sampleInstant]\<rparr>"
    by (simp add: sampleAdmitted_def)
  have a: "fst (handleStreamableHTTP sampleLib sampleInstant 2
                  (requestWith [(pingWithoutId, True)]) 0 sampleGateway) = writeHeaderOnly 202"
    using 1 2 3 by (simp add: handleStreamableHTTP_def Let_def)
  have b: "handleSSEMessage sampleLib sampleInstant 2 (requestWith [(pingWithoutId, True)]) 0
                    (sampleServer, sampleGateway)
      = (writeHeaderOnly 202,
         sampleServer\<lparr>srvSessions := AList.update ''s_1''
            (enqueue (resultResponse JNull EmptyObject) sampleSession)
            (srvSessions sampleServer)\<rparr>,
         RecordRequest sampleInstant ''c1'' 2 False sampleAdmitted)"
    using 1 2 6 pingWithoutId_handled
    by (simp add: handleSSEMessage_def Let_def requestWith_def sampleServer_def
          isErrorResponse_def resultResponse_def sampleConn_def sampleConfig_def)
  show ?thesis
    unfolding a b using 1
    by (simp add: pingWithoutId_decoded sampleServer_def enqueue_def sampleSession_def)
qed

subsection \<open>Configuration reconciler\<close>

text \<open>
  C6.  A tick that meets a failure to build or send the request, a 401, 403 or 304, any
  other status outside 200-299, a body that cannot be read or does not decode, or a
  decoded answer with \<open>success = false\<close> leaves the gateway as it was: registry, pepper,
  version, and all the rest of its state.  A tick that changes the gateway met a 2xx
  answer (in fact status 200) that decoded with \<open>success = true\<close>, and applied its
  configuration.
\<close>

theorem syncConfig_keeps_configuration:
  "((outcome = RequestError \<or> outcome = TransportFailure
      \<or> (\<exists>st tok b. outcome = Answer st tok b \<and>
            (st = 401 \<or> st = 403 \<or> st = 304 \<or> st < 200 \<or> 300 \<le> st \<or> b = None
             \<or> (\<exists>body. b = Some body \<and>
                   (decode_sync L body = None
                    \<or> (\<exists>cfg. decode_sync L body = Some (False, cfg)))))))
     \<longrightarrow> snd (syncConfig L outcome (p, g)) = g)
   \<and> (snd (syncConfig L outcome (p, g)) \<noteq> g
     \<longrightarrow> (\<exists>st tok body cfg. outcome = Answer st tok (Some body) \<and> 200 \<le> st \<and> st < 300 \<and>
            decode_sync L body = Some (True, cfg) \<and>
            snd (syncConfig L outcome (p, g)) = ApplyConfig cfg g))"
  by (cases outcome) (auto simp: syncConfig_def Let_def split: option.splits)

theorem syncConfig_keeps_configuration_witness:
  "snd (syncConfig sampleLib (Answer 401 [] (Some ''unauthorized'')) (samplePoller, sampleGateway))
     = sampleGateway
   \<and> snd (syncConfig sampleLib (Answer 200 ''t1'' (Some syncRefused))
            (samplePoller, sampleGateway)) = sampleGateway
   \<and> snd (syncConfig sampleLib (Answer 200 [] (Some syncAnswer)) (samplePoller, sampleGateway))
       \<noteq> sampleGateway
   \<and> decode_sync sampleLib syncAnswer
       = Some (True, \<lparr>ServerID = ''srv'', GatewayID = ''gw'', Pepper = ''pepper-2'',
                       Connections = [], Version = 2\<rparr>)
   \<and> pepper (snd (syncConfig sampleLib (Answer 200 [] (Some syncAnswer))
                    (samplePoller, sampleGateway))) = ''pepper-2''"
proof -
  have 1: "decode_sync sampleLib ''unauthorized'' = None"
    by (simp add: sampleLib_def syncAnswer_def syncRefused_def)
  have 2: "decode_sync sampleLib syncAnswer
       = Some (True, \<lparr>ServerID = ''srv'', GatewayID = ''gw'', Pepper = ''pepper-2'',
                       Connections = [], Version = 2\<rparr>)"
    by (simp add: sampleLib_def)
  have 3: "pepper (snd (syncConfig sampleLib (Answer 200 [] (Some syncAnswer))
                    (samplePoller, sampleGateway))) = ''pepper-2''"
    by (simp add: syncConfig_def 2 ApplyConfig_def)
  have 4: "pepper sampleGateway = ''pepper-1''" by (simp add: sampleGateway_def)
  have 5: "snd (syncConfig sampleLib (Answer 200 [] (Some syncAnswer)) (samplePoller, sampleGateway))
       \<noteq> sampleGateway"
    using 3 4 by auto
  have 6: "decode_sync sampleLib syncRefused = Some (False, \<lparr>ServerID = [], GatewayID = [], Pepper = [],
                                Connections = [], Version = 0\<rparr>)"
    by (simp add: sampleLib_def syncAnswer_def syncRefused_def)
  show ?thesis
    using syncConfig_keeps_configuration
            [of "Answer 401 [] (Some ''unauthorized'')" sampleLib samplePoller sampleGateway]
          syncConfig_keeps_configuration
            [of "Answer 200 ''t1'' (Some syncRefused)" sampleLib samplePoller sampleGateway]
          syncConfig_keeps_configuration
            [of "Answer 200 [] (Some syncAnswer)" sampleLib samplePoller sampleGateway]
          1 2 3 5 6
    by simp
qed

subsection \<open>Tenant registry\<close>

lemma ensureMetrics_fields [simp]:
  "heap (ensureMetrics k g) = heap g" "connections (ensureMetrics k g) = connections g"
  by (simp_all add: ensureMetrics_def)

lemma ensureMetrics_keeps:
  "map_of (metrics g) k = Some m \<Longrightarrow> map_of (metrics (ensureMetrics k' g)) k = Some m"
  by (auto simp: ensureMetrics_def update_conv)

lemma applyConnection_frame:
  assumes "applyConnection cc (g, nc) = (g', nc')" and "a < length (heap g)"
  shows "connections g' = connections g
     \<and> a < length (heap g')
     \<and> requests (heap g' ! a) = requests (heap g ! a)
     \<and> sessions (heap g' ! a) = sessions (heap g ! a)
     \<and> profile (Handler (heap g' ! a)) = profile (Handler (heap g ! a))
     \<and> (map_of (metrics g) k = Some m \<longrightarrow> map_of (metrics g') k = Some m)"
proof (cases "Enabled cc")
  case False
  with assms show ?thesis by (simp add: applyConnection_def)
next
  case True
  show ?thesis
  proof (cases "map_of (connections g) (Domain cc) \<noteq> None
                \<and> Profile (Config (heap g ! the (map_of (connections g) (Domain cc)))) = Profile cc")
    case reuse: True
    let ?b = "the (map_of (connections g) (Domain cc))"
    from assms(1) True reuse have g':
      "g' = ensureMetrics (ID cc)
              (g\<lparr>heap := (heap g)[?b := (heap g ! ?b)\<lparr>Config := cc,
                     Handler := UpdateEnvVars (Handler (heap g ! ?b)) (EnvVars cc)\<rparr>]\<rparr>)"
      by (auto simp: applyConnection_def Let_def)
    show ?thesis
      using assms(2) unfolding g'
      by (cases "?b = a") (simp_all add: ensureMetrics_keeps UpdateEnvVars_def)
  next
    case create: False
    show ?thesis
    proof (cases "profiles_Get (Profile cc)")
      case None
      with assms True create show ?thesis by (auto simp: applyConnection_def Let_def)
    next
      case (Some p)
      with assms(1) True create have g':
        "g' = ensureMetrics (ID cc)
                (g\<lparr>heap := heap g @ [\<lparr>Config = cc, Handler = NewHandler p (EnvVars cc),
                                        requests = [], sessions = 0\<rparr>]\<rparr>)"
        by (auto simp: applyConnection_def Let_def)
      show ?thesis
        using assms(2) unfolding g' by (simp add: ensureMetrics_keeps nth_append)
    qed
  qed
qed

lemma applyConnections_frame:
  assumes "applyConnections ccs (g, nc) = (g', nc')" and "a < length (heap g)"
  shows "connections g' = connections g
     \<and> a < length (heap g')
     \<and> requests (heap g' ! a) = requests (heap g ! a)
     \<and> sessions (heap g' ! a) = sessions (heap g ! a)
     \<and> profile (Handler (heap g' ! a)) = profile (Handler (heap g ! a))
     \<and> (map_of (metrics g) k = Some m \<longrightarrow> map_of (metrics g') k = Some m)"
  using assms
proof (induction ccs arbitrary: g nc)
  case Nil
  then show ?case by simp
next
  case (Cons cc ccs)
  obtain g1 nc1 where 1: "applyConnection cc (g, nc) = (g1, nc1)"
    by (cases "applyConnection cc (g, nc)")
  from applyConnection_frame [OF 1 Cons.prems(2), of k m]
  have f: "connections g1 = connections g" "a < length (heap g1)"
    "requests (heap g1 ! a) = requests (heap g ! a)"
    "sessions (heap g1 ! a) = sessions (heap g ! a)"
    "profile (Handler (heap g1 ! a)) = profile (Handler (heap g ! a))"
    "map_of (metrics g) k = Some m \<longrightarrow> map_of (metrics g1) k = Some m"
    by simp_all
  from Cons.prems(1) 1 have 2: "applyConnections ccs (g1, nc1) = (g', nc')" by simp
  from Cons.IH [OF 2 f(2)] f show ?case by simp
qed

lemma applyConnection_reuse:
  assumes "Enabled cc" and "map_of (connections g) (Domain cc) = Some a"
    and "a < length (heap g)" and "Profile (Config (heap g ! a)) = Profile cc"
    and "applyConnection cc (g, nc) = (g', nc')"
  shows "map_of nc' (Domain cc) = Some a \<and> Config (heap g' ! a) = cc
     \<and> envVars (Handler (heap g' ! a)) = EnvVars cc"
  using assms by (auto simp: applyConnection_def Let_def update_conv UpdateEnvVars_def)

lemma applyConnection_other:
  assumes "map_of (connections g) (Domain x) \<noteq> Some a" and "a < length (heap g)"
    and "applyConnection x (g, nc) = (g', nc')"
  shows "heap g' ! a = heap g ! a \<and> (Domain x \<noteq> d \<longrightarrow> map_of nc' d = map_of nc d)"
proof (cases "Enabled x")
  case False
  with assms show ?thesis by (simp add: applyConnection_def)
next
  case True
  show ?thesis
  proof (cases "map_of (connections g) (Domain x) \<noteq> None
                \<and> Profile (Config (heap g ! the (map_of (connections g) (Domain x)))) = Profile x")
    case reuse: True
    then obtain b where b: "map_of (connections g) (Domain x) = Some b" by auto
    with assms(1) have "b \<noteq> a" by simp
    with assms(3) True reuse b show ?thesis
      by (auto simp: applyConnection_def Let_def update_conv)
  next
    case create: False
    show ?thesis
    proof (cases "profiles_Get (Profile x)")
      case None
      with assms(3) True create show ?thesis by (auto simp: applyConnection_def Let_def)
    next
      case (Some p)
      with assms(2,3) True create show ?thesis
        by (auto simp: applyConnection_def Let_def update_conv nth_append)
    qed
  qed
qed

lemma applyConnections_retains:
  assumes "Enabled cc" and "map_of C (Domain cc) = Some a"
    and "\<forall>x\<in>set ccs. map_of C (Domain x) = Some a \<longrightarrow> x = cc"
    and "connections g = C" and "a < length (heap g)"
    and "Profile (Config (heap g ! a)) = Profile cc"
    and "cc \<in> set ccs \<or> (map_of nc (Domain cc) = Some a \<and> Config (heap g ! a) = cc
                          \<and> envVars (Handler (heap g ! a)) = EnvVars cc)"
    and "applyConnections ccs (g, nc) = (g', nc')"
  shows "map_of nc' (Domain cc) = Some a \<and> Config (heap g' ! a) = cc
     \<and> envVars (Handler (heap g' ! a)) = EnvVars cc"
  using assms(3-)
proof (induction ccs arbitrary: g nc)
  case Nil
  then show ?case by simp
next
  case (Cons x ccs)
  obtain g1 nc1 where 1: "applyConnection x (g, nc) = (g1, nc1)"
    by (cases "applyConnection x (g, nc)")
  from applyConnection_frame [OF 1 Cons.prems(3)]
  have f: "connections g1 = C" "a < length (heap g1)" using Cons.prems(2) by simp_all
  from Cons.prems(6) 1 have 2: "applyConnections ccs (g1, nc1) = (g', nc')" by simp
  have rest: "\<forall>x\<in>set ccs. map_of C (Domain x) = Some a \<longrightarrow> x = cc"
    using Cons.prems(1) by simp
  show ?case
  proof (cases "x = cc")
    case True
    from applyConnection_reuse [OF assms(1) _ Cons.prems(3,4), of nc g1 nc1]
      assms(2) Cons.prems(2) 1 True
    have post: "map_of nc1 (Domain cc) = Some a \<and> Config (heap g1 ! a) = cc
       \<and> envVars (Handler (heap g1 ! a)) = EnvVars cc" by simp
    then have "Profile (Config (heap g1 ! a)) = Profile cc" by simp
    from Cons.IH [OF rest f this _ 2] post show ?thesis by simp
  next
    case False
    with Cons.prems(1) have other: "map_of (connections g) (Domain x) \<noteq> Some a"
      using Cons.prems(2) by auto
    with assms(2) Cons.prems(2) have dom: "Domain x \<noteq> Domain cc" by auto
    from applyConnection_other [OF other Cons.prems(3) 1, of "Domain cc"] dom
    have same: "heap g1 ! a = heap g ! a" "map_of nc1 (Domain cc) = map_of nc (Domain cc)"
      by simp_all
    then have p: "Profile (Config (heap g1 ! a)) = Profile cc" using Cons.prems(4) by simp
    from Cons.prems(5) False same
    have "cc \<in> set ccs \<or> (map_of nc1 (Domain cc) = Some a \<and> Config (heap g1 ! a) = cc
                          \<and> envVars (Handler (heap g1 ! a)) = EnvVars cc)" by auto
    from Cons.IH [OF rest f p this 2] show ?thesis .
  qed
qed

text \<open>
  C5, as the code has it.  Let the registry hold, for the domain of an enabled
  connection \<open>cc\<close> of the new configuration, a tenant with the same profile selector, and
  let \<open>cc\<close> be the only connection of the configuration whose domain the registry maps
  to this tenant.  After \<^verbatim>\<open>ApplyConfig\<close> the registry maps the domain to the same tenant,
  which has the rate-limit window, the session counter and the bound profile it had
  before; every metrics entry that existed before is unchanged; and the tenant's
  configuration record is \<open>cc\<close> and its handler's environment that of \<open>cc\<close>.
\<close>

theorem ApplyConfig_preserves_live_state:
  assumes "GetConnection g d = Some a" and "a < length (heap g)"
    and "cc \<in> set (Connections cfg)" and "Enabled cc" and "Domain cc = d"
    and "Profile (Config (heap g ! a)) = Profile cc"
    and "\<forall>x\<in>set (Connections cfg). GetConnection g (Domain x) = Some a \<longrightarrow> x = cc"
  shows "GetConnection (ApplyConfig cfg g) d = Some a
     \<and> a < length (heap (ApplyConfig cfg g))
     \<and> requests (heap (ApplyConfig cfg g) ! a) = requests (heap g ! a)
     \<and> sessions (heap (ApplyConfig cfg g) ! a) = sessions (heap g ! a)
     \<and> profile (Handler (heap (ApplyConfig cfg g) ! a)) = profile (Handler (heap g ! a))
     \<and> (\<forall>k m. map_of (metrics g) k = Some m \<longrightarrow> map_of (metrics (ApplyConfig cfg g)) k = Some m)
     \<and> Config (heap (ApplyConfig cfg g) ! a) = cc
     \<and> envVars (Handler (heap (ApplyConfig cfg g) ! a)) = EnvVars cc"
proof -
  let ?g0 = "g\<lparr>pepper := Pepper cfg, version := Version cfg,
               gatewayID := GatewayID cfg, serverID := ServerID cfg\<rparr>"
  obtain g1 nc1 where 1: "applyConnections (Connections cfg) (?g0, []) = (g1, nc1)"
    by (cases "applyConnections (Connections cfg) (?g0, [])")
  then have A: "ApplyConfig cfg g = g1\<lparr>connections := nc1\<rparr>"
    by (simp add: ApplyConfig_def)
  have a0: "a < length (heap ?g0)" using assms(2) by simp
  have frame: "a < length (heap g1)"
      "requests (heap g1 ! a) = requests (heap g ! a)"
      "sessions (heap g1 ! a) = sessions (heap g ! a)"
      "profile (Handler (heap g1 ! a)) = profile (Handler (heap g ! a))"
    using applyConnections_frame [OF 1 a0] by simp_all
  have met: "map_of (metrics g) k = Some m \<longrightarrow> map_of (metrics g1) k = Some m" for k m
    using applyConnections_frame [OF 1 a0, of k m] by simp
  have "map_of nc1 (Domain cc) = Some a \<and> Config (heap g1 ! a) = cc
       \<and> envVars (Handler (heap g1 ! a)) = EnvVars cc"
  proof (rule applyConnections_retains [OF assms(4) _ _ _ a0 _ _ 1])
    show "map_of (connections g) (Domain cc) = Some a"
      using assms(1,5) by (simp add: GetConnection_def)
    show "\<forall>x\<in>set (Connections cfg). map_of (connections g) (Domain x) = Some a \<longrightarrow> x = cc"
      using assms(7) by (simp add: GetConnection_def)
    show "connections ?g0 = connections g" by simp
    show "Profile (Config (heap ?g0 ! a)) = Profile cc" using assms(6) by simp
    show "cc \<in> set (Connections cfg) \<or>
       map_of [] (Domain cc) = Some a \<and> Config (heap ?g0 ! a) = cc \<and>
       envVars (Handler (heap ?g0 ! a)) = EnvVars cc"
      using assms(3) by simp
  qed
  then have ret: "map_of nc1 d = Some a" "Config (heap g1 ! a) = cc"
      "envVars (Handler (heap g1 ! a)) = EnvVars cc"
    using assms(5) by simp_all
  show ?thesis
    unfolding A using frame met ret by (simp add: GetConnection_def)
qed

theorem ApplyConfig_preserves_live_state_witness:
  "GetConnection sampleAdmitted ''tenant.example'' = Some 0
   \<and> 0 < length (heap sampleAdmitted)
   \<and> updatedConfig \<in> set (Connections sampleUpdate) \<and> Enabled updatedConfig
   \<and> Domain updatedConfig = ''tenant.example''
   \<and> Profile (Config (heap sampleAdmitted ! 0)) = Profile updatedConfig
   \<and> requests (heap sampleAdmitted ! 0) = [sampleInstant]
   \<and> GetConnection (ApplyConfig sampleUpdate sampleAdmitted) ''tenant.example'' = Some 0
   \<and> requests (heap (ApplyConfig sampleUpdate sampleAdmitted) ! 0) = [sampleInstant]
   \<and> sessions (heap (ApplyConfig sampleUpdate sampleAdmitted) ! 0) = 0
   \<and> map_of (metrics (ApplyConfig sampleUpdate sampleAdmitted)) ''c1'' = Some zeroMetrics
   \<and> Config (heap (ApplyConfig sampleUpdate sampleAdmitted) ! 0) = updatedConfig
   \<and> envVars (Handler (heap (ApplyConfig sampleUpdate sampleAdmitted) ! 0)) = [(''TZ'', ''UTC'')]"
proof -
  have 1: "GetConnection sampleAdmitted ''tenant.example'' = Some 0"
    by (simp add: GetConnection_def sampleAdmitted_def sampleGateway_def)
  have 2: "0 < length (heap sampleAdmitted)" by (simp add: sampleAdmitted_def)
  have 3: "updatedConfig \<in> set (Connections sampleUpdate)" by (simp add: sampleUpdate_def)
  have 4: "Enabled updatedConfig" by (simp add: updatedConfig_def sampleConfig_def)
  have 5: "Domain updatedConfig = ''tenant.example''"
    by (simp add: updatedConfig_def sampleConfig_def)
  have 6: "Profile (Config (heap sampleAdmitted ! 0)) = Profile updatedConfig"
    by (simp add: sampleAdmitted_def sampleConn_def updatedConfig_def)
  have 7: "\<forall>x\<in>set (Connections sampleUpdate).
             GetConnection sampleAdmitted (Domain x) = Some 0 \<longrightarrow> x = updatedConfig"
    by (simp add: sampleUpdate_def)
  have 8: "requests (heap sampleAdmitted ! 0) = [sampleInstant]"
       "sessions (heap sampleAdmitted ! 0) = 0"
       "map_of (metrics sampleAdmitted) ''c1'' = Some zeroMetrics"
       "EnvVars updatedConfig = [(''TZ'', ''UTC'')]"
    by (simp_all add: sampleAdmitted_def sampleConn_def sampleGateway_def updatedConfig_def)
  show ?thesis
    using ApplyConfig_preserves_live_state [OF 1 2 3 4 5 6 7] 1 2 3 4 5 6 8
    by simp
qed

text \<open>The claim as stated, for every configuration with a connection for the domain
  and profile of a prior tenant, fails when the configuration has a second connection
  for the same domain with another profile: the first one reuses the tenant, the second
  one replaces it in the new registry by a fresh tenant with an empty window.\<close>

theorem ApplyConfig_duplicate_domain_counterexample:
  "GetConnection sampleAdmitted ''tenant.example'' = Some 0
   \<and> updatedConfig \<in> set (Connections duplicateUpdate) \<and> Enabled updatedConfig
   \<and> Domain updatedConfig = ''tenant.example''
   \<and> Profile (Config (heap sampleAdmitted ! 0)) = Profile updatedConfig
   \<and> requests (heap sampleAdmitted ! 0) = [sampleInstant]
   \<and> GetConnection (ApplyConfig duplicateUpdate sampleAdmitted) ''tenant.example'' = Some 1
   \<and> requests (heap (ApplyConfig duplicateUpdate sampleAdmitted) ! 1) = []
   \<and> Profile (Config (heap (ApplyConfig duplicateUpdate sampleAdmitted) ! 1)) = ''fetch''"
  by (simp add: GetConnection_def duplicateUpdate_def updatedConfig_def sampleAdmitted_def
        sampleGateway_def sampleConn_def sampleConfig_def ApplyConfig_def applyConnection_def
        ensureMetrics_def profiles_Get_def Registry_def NewHandler_def UpdateEnvVars_def
        zeroMetrics_def Let_def)

subsection \<open>Metrics\<close>

lemma exchange_length [simp]: "length (exchange i j t) = length t"
  by (simp add: exchange_def)

lemma exchange_take: "i < j \<Longrightarrow> take i (exchange i j t) = take i t"
  by (simp add: exchange_def)

lemma exchange_mset_drop:
  assumes "i < j" "j < length t"
  shows "mset (drop i (exchange i j t)) = mset (drop i t)"
proof (cases "t ! i > t ! j")
  case False
  then show ?thesis by (simp add: exchange_def)
next
  case True
  let ?ls = "drop i t"
  have 0: "?ls ! 0 = t ! i" "?ls ! (j - i) = t ! j" using assms by simp_all
  have "drop i (t[i := t ! j, j := t ! i]) = ?ls[0 := ?ls ! (j - i), j - i := ?ls ! 0]"
    using assms by (simp add: drop_update_swap 0)
  moreover have "mset (?ls[0 := ?ls ! (j - i), j - i := ?ls ! 0]) = mset ?ls"
    using assms by (intro mset_swap) simp_all
  ultimately show ?thesis using True by (simp add: exchange_def)
qed

lemma exchange_nth:
  assumes "i < j" "j < length t"
  shows "exchange i j t ! i \<le> exchange i j t ! j"
    and "exchange i j t ! i \<le> t ! i"
    and "k \<noteq> i \<Longrightarrow> k \<noteq> j \<Longrightarrow> exchange i j t ! k = t ! k"
  using assms by (auto simp: exchange_def)

lemma inner_loop:
  assumes "i + 1 \<le> j" "j \<le> length s"
  shows "length (fold (exchange i) [i + 1 ..< j] s) = length s
     \<and> take i (fold (exchange i) [i + 1 ..< j] s) = take i s
     \<and> mset (drop i (fold (exchange i) [i + 1 ..< j] s)) = mset (drop i s)
     \<and> (\<forall>k. i < k \<and> k < j \<longrightarrow>
           fold (exchange i) [i + 1 ..< j] s ! i \<le> fold (exchange i) [i + 1 ..< j] s ! k)"
  using assms
proof (induction j)
  case 0
  then show ?case by simp
next
  case (Suc j)
  show ?case
  proof (cases "i + 1 = Suc j")
    case True
    then show ?thesis by simp
  next
    case False
    with Suc.prems have le: "i + 1 \<le> j" "j \<le> length s" by simp_all
    let ?t = "fold (exchange i) [i + 1 ..< j] s"
    from Suc.IH [OF le] have IH: "length ?t = length s" "take i ?t = take i s"
      "mset (drop i ?t) = mset (drop i s)" "\<forall>k. i < k \<and> k < j \<longrightarrow> ?t ! i \<le> ?t ! k"
      by simp_all
    have ij: "i < j" "j < length ?t" using le Suc.prems IH(1) by simp_all
    have step: "fold (exchange i) [i + 1 ..< Suc j] s = exchange i j ?t"
      using le by simp
    have "exchange i j ?t ! i \<le> exchange i j ?t ! k" if "i < k" "k < Suc j" for k
    proof (cases "k = j")
      case True
      then show ?thesis using exchange_nth(1) [OF ij] by simp
    next
      case False
      with that have "k < j" "k \<noteq> i" by simp_all
      then have "exchange i j ?t ! k = ?t ! k" using exchange_nth(3) [OF ij] False by simp
      moreover have "?t ! i \<le> ?t ! k" using IH(4) that \<open>k < j\<close> by simp
      moreover have "exchange i j ?t ! i \<le> ?t ! i" by (rule exchange_nth(2) [OF ij])
      ultimately show ?thesis by simp
    qed
    then show ?thesis
      unfolding step
      using IH exchange_take [OF ij(1), of ?t] exchange_mset_drop [OF ij] by simp
  qed
qed

lemma in_set_drop_nth:
  "x \<in> set (drop m xs) \<longleftrightarrow> (\<exists>i. m \<le> i \<and> i < length xs \<and> xs ! i = x)"
proof
  assume "x \<in> set (drop m xs)"
  then obtain j where j: "j < length (drop m xs)" "drop m xs ! j = x"
    unfolding in_set_conv_nth by blast
  then have "m \<le> m + j \<and> m + j < length xs \<and> xs ! (m + j) = x" by simp
  then show "\<exists>i. m \<le> i \<and> i < length xs \<and> xs ! i = x" by blast
next
  assume "\<exists>i. m \<le> i \<and> i < length xs \<and> xs ! i = x"
  then obtain i where i: "m \<le> i" "i < length xs" "xs ! i = x" by blast
  then have "i - m < length (drop m xs)" "drop m xs ! (i - m) = x" by simp_all
  then show "x \<in> set (drop m xs)" unfolding in_set_conv_nth by blast
qed

lemma mset_take_drop: "mset xs = mset (take i xs) + mset (drop i xs)"
  by (metis append_take_drop_id mset_append)

lemma outer_loop:
  assumes "m \<le> length xs"
  shows "length (fold (\<lambda>i buf. fold (exchange i) [i + 1 ..< length buf] buf) [0 ..< m] xs)
           = length xs
     \<and> mset (fold (\<lambda>i buf. fold (exchange i) [i + 1 ..< length buf] buf) [0 ..< m] xs)
           = mset xs
     \<and> (\<forall>k l. k < m \<and> k < l \<and> l < length xs \<longrightarrow>
           fold (\<lambda>i buf. fold (exchange i) [i + 1 ..< length buf] buf) [0 ..< m] xs ! k
           \<le> fold (\<lambda>i buf. fold (exchange i) [i + 1 ..< length buf] buf) [0 ..< m] xs ! l)"
  using assms
proof (induction m)
  case 0
  then show ?case by simp
next
  case (Suc m)
  let ?F = "\<lambda>i buf. fold (exchange i) [i + 1 ..< length buf] buf"
  let ?s = "fold ?F [0 ..< m] xs"
  let ?t = "fold (exchange m) [m + 1 ..< length ?s] ?s"
  from Suc have IH: "length ?s = length xs" "mset ?s = mset xs"
    "\<forall>k l. k < m \<and> k < l \<and> l < length xs \<longrightarrow> ?s ! k \<le> ?s ! l"
    by simp_all
  have m: "m + 1 \<le> length ?s" using Suc.prems IH(1) by simp
  from inner_loop [OF m order_refl]
  have inner: "length ?t = length ?s" "take m ?t = take m ?s"
    "mset (drop m ?t) = mset (drop m ?s)"
    "\<forall>k. m < k \<and> k < length ?s \<longrightarrow> ?t ! m \<le> ?t ! k"
    by simp_all
  have step: "fold ?F [0 ..< Suc m] xs = ?t" by simp
  have ms: "mset ?t = mset xs"
    using mset_take_drop [of ?t m] mset_take_drop [of ?s m] inner(2,3) IH(2) by simp
  have ord: "?t ! k \<le> ?t ! l" if "k < Suc m" "k < l" "l < length xs" for k l
  proof (cases "k = m")
    case True
    then show ?thesis using inner(4) that IH(1) by simp
  next
    case False
    with that have km: "k < m" by simp
    have "take m ?t ! k = take m ?s ! k" using inner(2) by simp
    then have tk: "?t ! k = ?s ! k" using km by simp
    show ?thesis
    proof (cases "l < m")
      case True
      have "take m ?t ! l = take m ?s ! l" using inner(2) by simp
      then have "?t ! l = ?s ! l" using True by simp
      moreover have "?s ! k \<le> ?s ! l" using IH(3) km that by blast
      ultimately show ?thesis using tk by simp
    next
      case False
      then have ml: "m \<le> l" "l < length ?t" using that inner(1) IH(1) by simp_all
      have "?t ! l \<in> set (drop m ?t)"
        unfolding in_set_drop_nth using ml by blast
      moreover have "set (drop m ?t) = set (drop m ?s)"
        using arg_cong [OF inner(3), of set_mset] by simp
      ultimately have "?t ! l \<in> set (drop m ?s)" by simp
      then obtain l' where l': "m \<le> l'" "l' < length ?s" "?s ! l' = ?t ! l"
        unfolding in_set_drop_nth by auto
      have "k < l'" using km l'(1) by simp
      moreover have "l' < length xs" using l'(2) IH(1) by simp
      ultimately have "?s ! k \<le> ?s ! l'" using IH(3) km by blast
      then show ?thesis using tk l'(3) by simp
    qed
  qed
  show ?case unfolding step using inner(1) IH(1) ms ord by simp
qed

lemma sortLoop_sort: "sortLoop xs = sort xs"
proof -
  from outer_loop [of "length xs" xs]
  have l: "length (sortLoop xs) = length xs" and m: "mset (sortLoop xs) = mset xs"
    and o: "\<forall>k l. k < l \<and> l < length xs \<longrightarrow> sortLoop xs ! k \<le> sortLoop xs ! l"
    unfolding sortLoop_def by auto
  have "sorted (sortLoop xs)"
    unfolding sorted_iff_nth_mono_less using o l by simp
  with m show ?thesis by (simp add: properties_for_sort)
qed

lemma floor_95: "nat \<lfloor>0.95 * real n\<rfloor> = (95 * n) div 100"
proof -
  have "0.95 * real n = real (95 * n) / real 100" by simp
  then have "\<lfloor>0.95 * real n\<rfloor> = int ((95 * n) div 100)"
    by (simp only: floor_divide_of_nat_eq)
  then show ?thesis by simp
qed

lemma calculateP95_spec:
  "calculateP95 xs =
     (if xs = [] then 0
      else sort xs ! min (nat \<lfloor>0.95 * real (length xs)\<rfloor>) (length xs - 1))"
proof (cases "xs = []")
  case True
  then show ?thesis by (simp add: calculateP95_def)
next
  case False
  then have "0 < length xs" by simp
  then have b: "(95 * length xs) div 100 \<le> length xs - 1" by linarith
  have e: "min (nat \<lfloor>0.95 * real (length xs)\<rfloor>) (length xs - 1) = (95 * length xs) div 100"
    unfolding floor_95 using b by (simp only: min_def if_True)
  have "calculateP95 xs = sort xs ! ((95 * length xs) div 100)"
    using False b by (simp add: calculateP95_def sortLoop_sort Let_def)
  then show ?thesis unfolding e using False by (simp only: if_False)
qed

lemma collectLoop_reports:
  "fst (collectLoop L g ms)
     = map (\<lambda>(connID, m). reportOf L g connID m) (filter (\<lambda>(connID, m). \<not> noDelta m) ms)"
proof (induction ms)
  case Nil
  then show ?case by simp
next
  case (Cons x ms)
  obtain connID m where x: "x = (connID, m)" by (cases x)
  obtain reports rest where r: "collectLoop L g ms = (reports, rest)"
    by (cases "collectLoop L g ms")
  with Cons.IH x show ?case by simp
qed

text \<open>
  C8.  \<^verbatim>\<open>CollectAndResetMetrics\<close> reports exactly the tenants with a non-zero delta
  counter, and the P95 of a tenant's report is 0 when its latency window is empty and
  otherwise the element of the ascending sort of its n samples at index
  \<open>\<lfloor>0.95 n\<rfloor>\<close>, bounded by \<open>n - 1\<close>.
\<close>

theorem CollectAndResetMetrics_P95:
  "fst (CollectAndResetMetrics L g)
     = map (\<lambda>(connID, m). reportOf L g connID m)
           (filter (\<lambda>(connID, m). \<not> (RequestCount m = 0 \<and> ErrorCount m = 0 \<and> AuthFailures m = 0))
              (metrics g))
   \<and> ConnectionID (reportOf L g connID m) = connID
   \<and> P95LatencyMs (reportOf L g connID m)
       = (if Latencies m = [] then 0
          else sort (Latencies m)
                 ! min (nat \<lfloor>0.95 * real (length (Latencies m))\<rfloor>) (length (Latencies m) - 1))"
proof -
  obtain reports rest where r: "collectLoop L g (metrics g) = (reports, rest)"
    by (cases "collectLoop L g (metrics g)")
  have 1: "fst (CollectAndResetMetrics L g) = fst (collectLoop L g (metrics g))"
    using r by (simp add: CollectAndResetMetrics_def)
  have 2: "(\<lambda>(connID, m). \<not> (RequestCount m = 0 \<and> ErrorCount m = 0 \<and> AuthFailures m = 0))
           = (\<lambda>(connID, m). \<not> noDelta m)"
    by (simp add: noDelta_def)
  have 3: "ConnectionID (reportOf L g connID m) = connID"
    and 4: "P95LatencyMs (reportOf L g connID m) = calculateP95 (Latencies m)"
    by (simp_all add: reportOf_def)
  show ?thesis
    unfolding 1 2 3 4 collectLoop_reports calculateP95_spec by (simp only: simp_thms)
qed

theorem CollectAndResetMetrics_P95_witness:
  "map ConnectionID (fst (CollectAndResetMetrics sampleLib sampleMeasured)) = [''c1'', ''c3'']
   \<and> map P95LatencyMs (fst (CollectAndResetMetrics sampleLib sampleMeasured)) = [30, 0]"
proof -
  let ?m1 = "zeroMetrics\<lparr>RequestCount := 3, Latencies := [30, 10, 20]\<rparr>"
  let ?m3 = "zeroMetrics\<lparr>AuthFailures := 1\<rparr>"
  have f: "nat \<lfloor>0.95 * real (length [30, 10, 20 :: real])\<rfloor> = 2" by simp
  have 1: "P95LatencyMs (reportOf sampleLib sampleMeasured ''c1'' ?m1) = 30"
    using CollectAndResetMetrics_P95 [of sampleLib sampleMeasured "''c1''" ?m1] f
    by (simp add: zeroMetrics_def)
  have 3: "P95LatencyMs (reportOf sampleLib sampleMeasured ''c3'' ?m3) = 0"
    using CollectAndResetMetrics_P95 [of sampleLib sampleMeasured "''c3''" ?m3]
    by (simp add: zeroMetrics_def)
  have 0: "fst (CollectAndResetMetrics sampleLib sampleMeasured)
        = [reportOf sampleLib sampleMeasured ''c1'' ?m1,
           reportOf sampleLib sampleMeasured ''c3'' ?m3]"
    using CollectAndResetMetrics_P95 [of sampleLib sampleMeasured "''c1''" ?m1]
    by (simp add: sampleMeasured_def zeroMetrics_def)
  have 4: "ConnectionID (reportOf sampleLib sampleMeasured k m) = k" for k m
    by (simp add: reportOf_def)
  show ?thesis unfolding 0 using 1 3 4 by simp
qed

end
